theory Spec2Isabelle
  imports Main
begin

section \<open>Security Research Terminal: the panel logic of \<^verbatim>\<open>panel.js\<close>\<close>

text \<open>
  The class \<^verbatim>\<open>SecurityResearchTerminal\<close> is embedded as functions on an explicit
  state record. Conventions of the embedding:

  \<^item> A JavaScript string is a \<^typ>\<open>string\<close>; one \<^typ>\<open>char\<close> stands for one UTF-16
    code unit in the range 0..255 (Latin-1), so \<^const>\<open>length\<close> is \<^verbatim>\<open>.length\<close>. The
    five display glyphs of the source that lie outside this range are named constants.
  \<^item> Every call of a host interface (\<^verbatim>\<open>chrome.runtime.sendMessage\<close>,
    \<^verbatim>\<open>chrome.devtools.inspectedWindow.eval\<close>, \<^verbatim>\<open>fetch\<close>) and every line given to
    \<^verbatim>\<open>appendOutput\<close> is recorded, in order, in the field \<open>trace\<close>.
  \<^item> The host itself (what the calls answer, whether they raise, and the language built-ins
    \<^verbatim>\<open>new URL\<close>, \<^verbatim>\<open>String\<close>, \<^verbatim>\<open>JSON.stringify\<close>) is a parameter \<open>h\<close> of type \<open>host\<close>.
  \<^item> A function that may raise returns \<open>exn option \<times> state\<close>: the exception, if one
    was raised, and the state as it was left at that moment.
  \<^item> The DOM elements the constructor looks up are assumed to exist, so \<^verbatim>\<open>appendOutput\<close>
    and \<^verbatim>\<open>setStatusIndicator\<close> do not raise.
  \<^item> The callback given to \<^verbatim>\<open>inspectedWindow.eval\<close> runs in a later turn of the event
    loop. A transport call that the host accepts is kept in the field \<open>pending\<close> together
    with the callback it was made with; the completion of a pending call
    (\<open>transport_completes\<close>) takes it from there and runs the function that
    \<^verbatim>\<open>executeInPage\<close> handed to the transport (\<open>executeInPage_callback\<close>). The host calls
    that function at most once for each call.
  \<^item> A command runs to its end before the next event is handled; the answer of a
    \<^verbatim>\<open>fetch\<close> is taken from the host at once.
\<close>

subsection \<open>Characters and strings\<close>

abbreviation (input) quote :: char where "quote \<equiv> CHR 0x27"
abbreviation (input) dquote :: char where "dquote \<equiv> CHR 0x22"
abbreviation (input) backslash :: char where "backslash \<equiv> CHR 0x5C"
abbreviation (input) newline :: char where "newline \<equiv> CHR 0x0A"

text \<open>The class \<^verbatim>\<open>\s\<close> of a regular expression, which is also what \<^verbatim>\<open>trim\<close> removes:
  TAB, LF, VT, FF, CR, SPACE and NBSP among the code units below 256.\<close>

definition is_space :: "char \<Rightarrow> bool" where
  "is_space c \<longleftrightarrow> of_char c \<in> {9, 10, 11, 12, 13, 32, 160 :: nat}"

text \<open>\<^verbatim>\<open>String.prototype.toLowerCase\<close> on Latin-1: A..Z and the accented capitals
  0xC0..0xDE (without the multiplication sign 0xD7) move up by 32.\<close>

definition lower_char :: "char \<Rightarrow> char" where
  "lower_char c =
     (let n = of_char c :: nat
      in if (65 \<le> n \<and> n \<le> 90) \<or> (192 \<le> n \<and> n \<le> 222 \<and> n \<noteq> 215)
         then char_of (n + 32) else c)"

definition toLowerCase :: "string \<Rightarrow> string" where
  "toLowerCase s = map lower_char s"

definition trim :: "string \<Rightarrow> string" where
  "trim s = rev (dropWhile is_space (rev (dropWhile is_space s)))"

text \<open>\<^verbatim>\<open>s.split(/\s+/)\<close>: the pieces between maximal runs of white space. A leading or a
  trailing run leaves an empty piece; the empty string gives one empty piece.\<close>

function split_ws :: "string \<Rightarrow> string list" where
  "split_ws [] = [[]]"
| "split_ws (c # cs) =
     (if is_space c then [] # split_ws (dropWhile is_space cs)
      else (case split_ws cs of
              [] \<Rightarrow> [[c]]
            | w # ws \<Rightarrow> (c # w) # ws))"
  by pat_completeness auto
termination
  by (relation "measure length") (auto simp: length_dropWhile_le less_Suc_eq_le)

text \<open>\<^verbatim>\<open>s.split('/')\<close> for a one-character separator.\<close>

fun split_char :: "char \<Rightarrow> string \<Rightarrow> string list" where
  "split_char d [] = [[]]"
| "split_char d (c # cs) =
     (if c = d then [] # split_char d cs
      else (case split_char d cs of
              [] \<Rightarrow> [[c]]
            | w # ws \<Rightarrow> (c # w) # ws))"

text \<open>\<^verbatim>\<open>xs.join(' ')\<close>.\<close>

fun join_space :: "string list \<Rightarrow> string" where
  "join_space [] = []"
| "join_space [x] = x"
| "join_space (x # y # ys) = x @ '' '' @ join_space (y # ys)"

text \<open>\<^verbatim>\<open>s.includes(t)\<close>.\<close>

fun includes_str :: "string \<Rightarrow> string \<Rightarrow> bool" where
  "includes_str [] t = (t = [])"
| "includes_str (c # cs) t = (take (length t) (c # cs) = t \<or> includes_str cs t)"

text \<open>\<^verbatim>\<open>s.replace(/'/g, "\\'")\<close>: every single quote gets a backslash in front. The
  source writes this expression at each place where a user-supplied argument enters a
  generated script.\<close>

definition replace_quotes :: "string \<Rightarrow> string" where
  "replace_quotes s = concat (map (\<lambda>c. if c = quote then [backslash, quote] else [c]) s)"

text \<open>The glyphs of the source outside Latin-1, written as their UTF-8 bytes.\<close>

definition glyph_check :: string where
  "glyph_check = [CHR 0xE2, CHR 0x9C, CHR 0x93]"

definition glyph_cross :: string where
  "glyph_cross = [CHR 0xE2, CHR 0x9C, CHR 0x97]"

definition glyph_arrow :: string where
  "glyph_arrow = [CHR 0xE2, CHR 0x86, CHR 0x92]"

definition glyph_rule :: string where
  "glyph_rule = [CHR 0xE2, CHR 0x94, CHR 0x80]"

definition glyph_double_rule :: string where
  "glyph_double_rule = [CHR 0xE2, CHR 0x95, CHR 0x90]"

subsection \<open>Values, exceptions and the host\<close>

text \<open>A thrown \<^verbatim>\<open>Error\<close>, read only through \<^verbatim>\<open>error.message\<close>.\<close>

datatype exn = Error (message: string)

text \<open>What the transport hands to its callback: a JSON value or \<^verbatim>\<open>undefined\<close>. Numbers
  are integers here; the code inspects a number only for being zero.\<close>

datatype jsval =
    JUndefined
  | JNull
  | JBool bool
  | JNumber int
  | JString string
  | JArray "jsval list"
  | JObject "(string \<times> jsval) list"

text \<open>\<^verbatim>\<open>ToBoolean\<close>, the test behind \<^verbatim>\<open>if (v)\<close>, \<^verbatim>\<open>!v\<close> and \<^verbatim>\<open>v && w\<close>.\<close>

fun truthy :: "jsval \<Rightarrow> bool" where
  "truthy JUndefined = False"
| "truthy JNull = False"
| "truthy (JBool b) = b"
| "truthy (JNumber n) = (n \<noteq> 0)"
| "truthy (JString s) = (s \<noteq> [])"
| "truthy (JArray _) = True"
| "truthy (JObject _) = True"

text \<open>\<^verbatim>\<open>v.k\<close> for one of the property names the callbacks read (none of them is defined
  on a primitive or an array): the own property of an object, else \<^verbatim>\<open>undefined\<close>. The
  source reads a property only behind a truthiness test of \<open>v\<close>.\<close>

fun get_prop :: "jsval \<Rightarrow> string \<Rightarrow> jsval" where
  "get_prop (JObject kvs) k = (case map_of kvs k of None \<Rightarrow> JUndefined | Some v \<Rightarrow> v)"
| "get_prop _ k = JUndefined"

record url =
  protocol :: string
  hostname :: string
  pathname :: string

datatype message = EXECUTION_START | EXECUTION_END | PANEL_OPENED | PANEL_CLOSED

text \<open>The outcome of \<^verbatim>\<open>await fetch(u)\<close>: the promise rejects, or a response arrives with
  its \<^verbatim>\<open>ok\<close> flag and the outcome of \<^verbatim>\<open>await response.text()\<close>.\<close>

datatype fetch_result =
    Rejected exn
  | Response bool "exn + string"

record host =
  sendMessage_raises :: "message \<Rightarrow> exn option"
  eval_raises :: "string \<Rightarrow> exn option"
  fetch :: "string \<Rightarrow> fetch_result"
  URL_new :: "string \<Rightarrow> exn + url"
  ToString :: "jsval \<Rightarrow> string"
  JSON_stringify :: "jsval \<Rightarrow> string"
  greater_than_zero :: "jsval \<Rightarrow> bool"

text \<open>The fields stand for: whether \<^verbatim>\<open>chrome.runtime.sendMessage\<close> and
  \<^verbatim>\<open>chrome.devtools.inspectedWindow.eval\<close> raise at the call, the answer of \<^verbatim>\<open>fetch\<close>,
  \<^verbatim>\<open>new URL(s)\<close>, the string conversion of a template literal, \<^verbatim>\<open>JSON.stringify(v, null, 2)\<close>
  and the comparison \<^verbatim>\<open>v > 0\<close>.\<close>

subsection \<open>The terminal state\<close>

datatype event =
    Output string string
  | Cleared
  | Sent message
  | Evaluated string
  | Fetched string
  | Scrolled

text \<open>The rendering callbacks that the handlers pass to \<^verbatim>\<open>executeInPage\<close>, one for each
  call site.\<close>

datatype callback =
    SnippetResult
  | DomSetTextResult
  | DomSetHtmlResult
  | DomSetAttributeResult
  | DomReplaceTextResult
  | PageTextResult
  | PageLinksResult
  | PageMetaResult

record state =
  commandHistory :: "string list"
  historyIndex :: int
  validatedUrl :: "url option"
  currentOperation :: "string option"
  commandInput :: string
  targetUrl :: string
  targetUrl_borderColor :: string
  snippetStatus :: bool
  domStatus :: bool
  scrapeStatus :: bool
  output_lines :: "(string \<times> string) list"
  trace :: "event list"
  pending :: "(string \<times> callback option) list"

text \<open>The constructor's initial values.\<close>

definition initial :: state where
  "initial = \<lparr> commandHistory = [], historyIndex = -1, validatedUrl = None,
     currentOperation = None, commandInput = [], targetUrl = [],
     targetUrl_borderColor = [], snippetStatus = False, domStatus = False,
     scrapeStatus = False, output_lines = [], trace = [], pending = [] \<rparr>"

definition appendOutput :: "string \<Rightarrow> string \<Rightarrow> state \<Rightarrow> state" where
  "appendOutput text type st =
     st\<lparr> output_lines := output_lines st @ [(text, type)], trace := trace st @ [Output text type] \<rparr>"

definition setStatusIndicator :: "string \<Rightarrow> bool \<Rightarrow> state \<Rightarrow> state" where
  "setStatusIndicator type active st =
     (if type = ''snippet'' then st\<lparr> snippetStatus := active \<rparr>
      else if type = ''dom'' then st\<lparr> domStatus := active \<rparr>
      else if type = ''scraping'' then st\<lparr> scrapeStatus := active \<rparr>
      else st)"

subsection \<open>History navigation\<close>

text \<open>\<^verbatim>\<open>commandInput.value = commandHistory[i]\<close>: an index outside the array reads
  \<^verbatim>\<open>undefined\<close>, which the input element stores as the text "undefined".\<close>

definition history_entry :: "string list \<Rightarrow> int \<Rightarrow> string" where
  "history_entry hist i =
     (if 0 \<le> i \<and> i < int (length hist) then hist ! nat i else ''undefined'')"

definition navigateHistory :: "string \<Rightarrow> state \<Rightarrow> state" where
  "navigateHistory direction st =
     (if length (commandHistory st) = 0 then st
      else if direction = ''up'' then
        (if historyIndex st < int (length (commandHistory st)) - 1
         then st\<lparr> historyIndex := historyIndex st + 1,
                  commandInput := history_entry (commandHistory st) (historyIndex st + 1) \<rparr>
         else st)
      else
        (if historyIndex st > 0
         then st\<lparr> historyIndex := historyIndex st - 1,
                  commandInput := history_entry (commandHistory st) (historyIndex st - 1) \<rparr>
         else if historyIndex st = 0
         then st\<lparr> historyIndex := -1, commandInput := [] \<rparr>
         else st))"

text \<open>A sequence of key presses, oldest first.\<close>

fun navigate_all :: "string list \<Rightarrow> state \<Rightarrow> state" where
  "navigate_all [] st = st"
| "navigate_all (d # ds) st = navigate_all ds (navigateHistory d st)"

definition cursor_in_range :: "state \<Rightarrow> bool" where
  "cursor_in_range st \<longleftrightarrow>
     -1 \<le> historyIndex st \<and> historyIndex st \<le> int (length (commandHistory st)) - 1"

subsection \<open>Outcomes and the host calls\<close>

type_synonym outcome = "exn option \<times> state"

definition ok :: "state \<Rightarrow> outcome" where
  "ok st = (None, st)"

text \<open>Sequencing: the second step runs only if the first did not raise.\<close>

definition and_then :: "outcome \<Rightarrow> (state \<Rightarrow> outcome) \<Rightarrow> outcome" where
  "and_then r f = (case r of (None, st) \<Rightarrow> f st | (Some e, st) \<Rightarrow> (Some e, st))"

text \<open>\<^verbatim>\<open>try { ... } finally { c }\<close> for a cleanup \<open>c\<close> that does not raise: it runs on
  both paths and a pending exception goes on.\<close>

definition finally_do :: "outcome \<Rightarrow> (state \<Rightarrow> state) \<Rightarrow> outcome" where
  "finally_do r c = (fst r, c (snd r))"

text \<open>\<^verbatim>\<open>try { ... } catch (error) { k }\<close> for a handler \<open>k\<close> that does not raise.\<close>

definition catch_with :: "outcome \<Rightarrow> (exn \<Rightarrow> state \<Rightarrow> state) \<Rightarrow> outcome" where
  "catch_with r k = (case r of (None, st) \<Rightarrow> (None, st) | (Some e, st) \<Rightarrow> (None, k e st))"

definition sendMessage :: "host \<Rightarrow> message \<Rightarrow> state \<Rightarrow> outcome" where
  "sendMessage h m st = (sendMessage_raises h m, st\<lparr> trace := trace st @ [Sent m] \<rparr>)"

text \<open>The call of the transport. If the host takes the call, the code and the callback of
  the function handed over are kept as pending.\<close>

definition inspectedWindow_eval :: "host \<Rightarrow> string \<Rightarrow> callback option \<Rightarrow> state \<Rightarrow> outcome" where
  "inspectedWindow_eval h code callback st =
     (let st1 = st\<lparr> trace := trace st @ [Evaluated code] \<rparr>
      in case eval_raises h code of
           Some e \<Rightarrow> (Some e, st1)
         | None \<Rightarrow> (None, st1\<lparr> pending := pending st1 @ [(code, callback)] \<rparr>))"

definition fetched :: "string \<Rightarrow> state \<Rightarrow> state" where
  "fetched u st = st\<lparr> trace := trace st @ [Fetched u] \<rparr>"

subsection \<open>Executing code in the inspected page\<close>

text \<open>\<^verbatim>\<open>executeInPage(code, callback)\<close> up to its return: the start message and the call
  of the transport.\<close>

definition executeInPage :: "host \<Rightarrow> string \<Rightarrow> callback option \<Rightarrow> state \<Rightarrow> outcome" where
  "executeInPage h code callback st =
     and_then (sendMessage h EXECUTION_START st) (inspectedWindow_eval h code callback)"

subsection \<open>The rendering callbacks\<close>

text \<open>The callback that \<^verbatim>\<open>handleSnippetExecution\<close> passes to \<^verbatim>\<open>executeInPage\<close>.\<close>

definition handleSnippetExecution_callback :: "host \<Rightarrow> jsval \<Rightarrow> jsval \<Rightarrow> state \<Rightarrow> outcome" where
  "handleSnippetExecution_callback h result isException st =
     (if truthy isException then
        ok (appendOutput (''EXCEPTION: '' @ ToString h result) ''error'' st)
      else if truthy result \<and> \<not> truthy (get_prop result ''success'') then
        ok (appendOutput (''ERROR: '' @ ToString h (get_prop result ''error'')) ''error'' st)
      else if truthy result \<and> get_prop result ''result'' \<noteq> JUndefined then
        ok (appendOutput (JSON_stringify h (get_prop result ''result'')) ''success'' st)
      else
        ok (appendOutput ''undefined'' ''success'' st))"

text \<open>The callbacks of the four DOM operations; they take the result only.\<close>

definition domSetText_callback :: "host \<Rightarrow> jsval \<Rightarrow> state \<Rightarrow> outcome" where
  "domSetText_callback h result st =
     (if truthy result \<and> greater_than_zero h (get_prop result ''count'') then
        ok (appendOutput (glyph_check @ '' Updated '' @ ToString h (get_prop result ''count'')
                            @ '' element(s)'') ''success'' st)
      else ok (appendOutput ''WARNING: No elements matched selector'' ''warning'' st))"

definition domSetHtml_callback :: "host \<Rightarrow> jsval \<Rightarrow> state \<Rightarrow> outcome" where
  "domSetHtml_callback h result st =
     (if truthy result \<and> greater_than_zero h (get_prop result ''count'') then
        ok (appendOutput (glyph_check @ '' Updated HTML of ''
                            @ ToString h (get_prop result ''count'') @ '' element(s)'')
              ''success'' st)
      else ok (appendOutput ''WARNING: No elements matched selector'' ''warning'' st))"

definition domSetAttribute_callback :: "host \<Rightarrow> jsval \<Rightarrow> state \<Rightarrow> outcome" where
  "domSetAttribute_callback h result st =
     (if truthy result \<and> greater_than_zero h (get_prop result ''count'') then
        ok (appendOutput (glyph_check @ '' Updated attribute of ''
                            @ ToString h (get_prop result ''count'') @ '' element(s)'')
              ''success'' st)
      else ok (appendOutput ''WARNING: No elements matched selector'' ''warning'' st))"

definition domReplaceText_callback :: "host \<Rightarrow> jsval \<Rightarrow> state \<Rightarrow> outcome" where
  "domReplaceText_callback h result st =
     (if truthy result \<and> greater_than_zero h (get_prop result ''count'') then
        ok (appendOutput (glyph_check @ '' Replaced text in ''
                            @ ToString h (get_prop result ''count'') @ '' location(s)'')
              ''success'' st)
      else ok (appendOutput ''WARNING: Text not found in page'' ''warning'' st))"

text \<open>The callbacks of the three page scrapes. Reading a property of \<^verbatim>\<open>null\<close> or
  \<^verbatim>\<open>undefined\<close> and calling \<^verbatim>\<open>forEach\<close> on a value that is not an array raise a
  \<^verbatim>\<open>TypeError\<close>; the lines added before stay.\<close>

definition scrapePageText_callback :: "host \<Rightarrow> jsval \<Rightarrow> state \<Rightarrow> outcome" where
  "scrapePageText_callback h result st =
     (if truthy result \<and> truthy (get_prop result ''text'') then
        (let st1 = appendOutput ([newline] @ concat (replicate 3 glyph_rule) @ '' Page Text ''
                                   @ concat (replicate 3 glyph_rule)) ''success'' st;
             st2 = appendOutput (ToString h (get_prop result ''text'')) ''success'' st1
         in ok (appendOutput (concat (replicate 3 glyph_rule) @ '' End ''
                                @ concat (replicate 3 glyph_rule) @ [newline]) ''success'' st2))
      else ok st)"

fun links_forEach :: "host \<Rightarrow> jsval list \<Rightarrow> state \<Rightarrow> outcome" where
  "links_forEach h [] st = ok st"
| "links_forEach h (link # links) st =
     (if link = JUndefined then
        (Some (Error ''Cannot read properties of undefined (reading 'text')''), st)
      else if link = JNull then
        (Some (Error ''Cannot read properties of null (reading 'text')''), st)
      else links_forEach h links
             (appendOutput (''  '' @ ToString h (get_prop link ''text'') @ '' '' @ glyph_arrow
                              @ '' '' @ ToString h (get_prop link ''href'')) ''success'' st))"

definition scrapePageLinks_callback :: "host \<Rightarrow> jsval \<Rightarrow> state \<Rightarrow> outcome" where
  "scrapePageLinks_callback h result st =
     (if truthy result \<and> truthy (get_prop result ''links'') then
        (let st1 = appendOutput ([newline] @ ''Found '' @ ToString h (get_prop result ''count'')
                                   @ '' links (showing first 100):'') ''success'' st
         in case get_prop result ''links'' of
              JArray links \<Rightarrow> links_forEach h links st1
            | _ \<Rightarrow> (Some (Error ''result.links.forEach is not a function''), st1))
      else ok st)"

fun metas_forEach :: "host \<Rightarrow> jsval list \<Rightarrow> state \<Rightarrow> outcome" where
  "metas_forEach h [] st = ok st"
| "metas_forEach h (meta # metas) st =
     (if meta = JUndefined then
        (Some (Error ''Cannot read properties of undefined (reading 'name')''), st)
      else if meta = JNull then
        (Some (Error ''Cannot read properties of null (reading 'name')''), st)
      else metas_forEach h metas
             (appendOutput (''  '' @ ToString h (get_prop meta ''name'') @ '': ''
                              @ ToString h (get_prop meta ''content'')) ''success'' st))"

definition scrapePageMeta_callback :: "host \<Rightarrow> jsval \<Rightarrow> state \<Rightarrow> outcome" where
  "scrapePageMeta_callback h result st =
     (if truthy result then
        (let st1 = appendOutput ([newline] @ ''Title: '' @ ToString h (get_prop result ''title''))
                     ''success'' st;
             st2 = appendOutput ([newline] @ ''Meta Tags:'') ''success'' st1
         in case get_prop result ''metas'' of
              JArray metas \<Rightarrow> metas_forEach h metas st2
            | JUndefined \<Rightarrow>
                (Some (Error ''Cannot read properties of undefined (reading 'forEach')''), st2)
            | JNull \<Rightarrow>
                (Some (Error ''Cannot read properties of null (reading 'forEach')''), st2)
            | _ \<Rightarrow> (Some (Error ''result.metas.forEach is not a function''), st2))
      else ok st)"

text \<open>The call \<^verbatim>\<open>callback(result, isException)\<close>.\<close>

fun run_callback :: "host \<Rightarrow> callback \<Rightarrow> jsval \<Rightarrow> jsval \<Rightarrow> state \<Rightarrow> outcome" where
  "run_callback h SnippetResult result isException st =
     handleSnippetExecution_callback h result isException st"
| "run_callback h DomSetTextResult result isException st = domSetText_callback h result st"
| "run_callback h DomSetHtmlResult result isException st = domSetHtml_callback h result st"
| "run_callback h DomSetAttributeResult result isException st =
     domSetAttribute_callback h result st"
| "run_callback h DomReplaceTextResult result isException st =
     domReplaceText_callback h result st"
| "run_callback h PageTextResult result isException st = scrapePageText_callback h result st"
| "run_callback h PageLinksResult result isException st = scrapePageLinks_callback h result st"
| "run_callback h PageMetaResult result isException st = scrapePageMeta_callback h result st"

subsection \<open>Completion of a transport call\<close>

text \<open>The arrow function \<^verbatim>\<open>(result, isException) => { ... }\<close> that \<^verbatim>\<open>executeInPage\<close> hands
  to the transport, for the \<^verbatim>\<open>callback\<close> it was called with (\<open>None\<close>: no callback).\<close>

definition executeInPage_callback ::
  "host \<Rightarrow> callback option \<Rightarrow> jsval \<Rightarrow> jsval \<Rightarrow> state \<Rightarrow> outcome" where
  "executeInPage_callback h callback result isException st =
     and_then (sendMessage h EXECUTION_END st)
       (case callback of None \<Rightarrow> ok | Some cb \<Rightarrow> run_callback h cb result isException)"

text \<open>The transport completes the pending call number \<open>i\<close> and reports \<open>result\<close> and
  \<open>isException\<close>: the call leaves the pending ones and its function runs. An exception of
  that function is not caught by anything in the panel.\<close>

definition transport_completes :: "host \<Rightarrow> nat \<Rightarrow> jsval \<Rightarrow> jsval \<Rightarrow> state \<Rightarrow> outcome" where
  "transport_completes h i result isException st =
     (if i < length (pending st) then
        executeInPage_callback h (snd (pending st ! i)) result isException
          (st\<lparr> pending := take i (pending st) @ drop (Suc i) (pending st) \<rparr>)
      else ok st)"

subsection \<open>Snippet execution\<close>

definition wrappedCode :: "string \<Rightarrow> string" where
  "wrappedCode code =
        [newline]
      @ ''        (() => {'' @ [newline]
      @ ''          try {'' @ [newline]
      @ ''            const result = '' @ code @ '';'' @ [newline]
      @ ''            return { success: true, result };'' @ [newline]
      @ ''          } catch (error) {'' @ [newline]
      @ ''            return { success: false, error: error.message };'' @ [newline]
      @ ''          }'' @ [newline]
      @ ''        })()'' @ [newline]
      @ ''      ''"

definition handleSnippetExecution :: "host \<Rightarrow> string \<Rightarrow> state \<Rightarrow> outcome" where
  "handleSnippetExecution h code st =
     (if code = [] then ok (appendOutput ''ERROR: No code provided'' ''error'' st)
      else finally_do
             (executeInPage h (wrappedCode code) (Some SnippetResult)
                (setStatusIndicator ''snippet'' True st))
             (setStatusIndicator ''snippet'' False))"

subsection \<open>DOM modification\<close>

definition domSetText_code :: "string \<Rightarrow> string \<Rightarrow> string" where
  "domSetText_code selector text =
        [newline]
      @ ''      (() => {'' @ [newline]
      @ ''        const elements = document.querySelectorAll('' @ [quote] @ replace_quotes selector @ [quote] @ '');'' @ [newline]
      @ ''        elements.forEach(el => el.textContent = '' @ [quote] @ replace_quotes text @ [quote] @ '');'' @ [newline]
      @ ''        return { count: elements.length };'' @ [newline]
      @ ''      })()'' @ [newline]
      @ ''    ''"

definition domSetText :: "host \<Rightarrow> string list \<Rightarrow> state \<Rightarrow> outcome" where
  "domSetText h args st =
     (if length args < 2 then
        ok (appendOutput ''ERROR: Usage: dom set <selector> <text>'' ''error'' st)
      else executeInPage h (domSetText_code (args ! 0) (join_space (drop 1 args)))
             (Some DomSetTextResult) st)"

definition domSetHtml_code :: "string \<Rightarrow> string \<Rightarrow> string" where
  "domSetHtml_code selector html =
        [newline]
      @ ''      (() => {'' @ [newline]
      @ ''        const elements = document.querySelectorAll('' @ [quote] @ replace_quotes selector @ [quote] @ '');'' @ [newline]
      @ ''        elements.forEach(el => el.innerHTML = '' @ [quote] @ replace_quotes html @ [quote] @ '');'' @ [newline]
      @ ''        return { count: elements.length };'' @ [newline]
      @ ''      })()'' @ [newline]
      @ ''    ''"

definition domSetHtml :: "host \<Rightarrow> string list \<Rightarrow> state \<Rightarrow> outcome" where
  "domSetHtml h args st =
     (if length args < 2 then
        ok (appendOutput ''ERROR: Usage: dom html <selector> <html>'' ''error'' st)
      else executeInPage h (domSetHtml_code (args ! 0) (join_space (drop 1 args)))
             (Some DomSetHtmlResult) st)"

definition domSetAttribute_code :: "string \<Rightarrow> string \<Rightarrow> string \<Rightarrow> string" where
  "domSetAttribute_code selector attr val =
        [newline]
      @ ''      (() => {'' @ [newline]
      @ ''        const elements = document.querySelectorAll('' @ [quote] @ replace_quotes selector @ [quote] @ '');'' @ [newline]
      @ ''        elements.forEach(el => el.setAttribute('' @ [quote] @ replace_quotes attr @ [quote] @ '', '' @ [quote] @ replace_quotes val @ [quote] @ ''));'' @ [newline]
      @ ''        return { count: elements.length };'' @ [newline]
      @ ''      })()'' @ [newline]
      @ ''    ''"

definition domSetAttribute :: "host \<Rightarrow> string list \<Rightarrow> state \<Rightarrow> outcome" where
  "domSetAttribute h args st =
     (if length args < 3 then
        ok (appendOutput ''ERROR: Usage: dom attr <selector> <attribute> <value>'' ''error'' st)
      else executeInPage h
             (domSetAttribute_code (args ! 0) (args ! 1) (join_space (drop 2 args)))
             (Some DomSetAttributeResult) st)"

definition domReplaceText_code :: "string \<Rightarrow> string \<Rightarrow> string" where
  "domReplaceText_code oldText newText =
        [newline]
      @ ''      (() => {'' @ [newline]
      @ ''        let count = 0;'' @ [newline]
      @ ''        const walker = document.createTreeWalker('' @ [newline]
      @ ''          document.body,'' @ [newline]
      @ ''          NodeFilter.SHOW_TEXT,'' @ [newline]
      @ ''          null,'' @ [newline]
      @ ''          false'' @ [newline]
      @ ''        );'' @ [newline]
      @ ''        '' @ [newline]
      @ ''        const nodesToReplace = [];'' @ [newline]
      @ ''        while(walker.nextNode()) {'' @ [newline]
      @ ''          const node = walker.currentNode;'' @ [newline]
      @ ''          if (node.nodeValue && node.nodeValue.includes('' @ [quote] @ replace_quotes oldText @ [quote] @ '')) {'' @ [newline]
      @ ''            nodesToReplace.push(node);'' @ [newline]
      @ ''          }'' @ [newline]
      @ ''        }'' @ [newline]
      @ ''        '' @ [newline]
      @ ''        nodesToReplace.forEach(node => {'' @ [newline]
      @ ''          node.nodeValue = node.nodeValue.replace('' @ [newline]
      @ ''            new RegExp('' @ [quote] @ replace_quotes oldText @ [quote] @ '', '' @ [quote] @ ''g'' @ [quote] @ ''),'' @ [newline]
      @ ''            '' @ [quote] @ replace_quotes newText @ [quote] @ [newline]
      @ ''          );'' @ [newline]
      @ ''          count++;'' @ [newline]
      @ ''        });'' @ [newline]
      @ ''        '' @ [newline]
      @ ''        return { count };'' @ [newline]
      @ ''      })()'' @ [newline]
      @ ''    ''"

definition domReplaceText :: "host \<Rightarrow> string list \<Rightarrow> state \<Rightarrow> outcome" where
  "domReplaceText h args st =
     (if length args < 2 then
        ok (appendOutput ''ERROR: Usage: dom replace <old text> <new text>'' ''error'' st)
      else executeInPage h (domReplaceText_code (args ! 0) (join_space (drop 1 args)))
             (Some DomReplaceTextResult) st)"

text \<open>\<^verbatim>\<open>args[0]?.toLowerCase()\<close>: \<open>None\<close> is \<^verbatim>\<open>undefined\<close>, which matches no \<^verbatim>\<open>case\<close>.\<close>

definition first_lower :: "string list \<Rightarrow> string option" where
  "first_lower args = (case args of [] \<Rightarrow> None | a # _ \<Rightarrow> Some (toLowerCase a))"

definition handleDomCommand :: "host \<Rightarrow> string list \<Rightarrow> state \<Rightarrow> outcome" where
  "handleDomCommand h args st =
     finally_do
       (let st1 = setStatusIndicator ''dom'' True st;
            action = first_lower args
        in if action = Some ''set'' then domSetText h (drop 1 args) st1
           else if action = Some ''html'' then domSetHtml h (drop 1 args) st1
           else if action = Some ''attr'' then domSetAttribute h (drop 1 args) st1
           else if action = Some ''replace'' then domReplaceText h (drop 1 args) st1
           else ok (appendOutput ''ERROR: Unknown DOM action. Use: set, html, attr, or replace''
                      ''error'' st1))
       (setStatusIndicator ''dom'' False)"

subsection \<open>Scraping\<close>

definition displayFileContent :: "string \<Rightarrow> string \<Rightarrow> state \<Rightarrow> state" where
  "displayFileContent fileName content st =
     (let st1 = appendOutput
                  ([newline] @ concat (replicate 3 glyph_rule) @ '' '' @ fileName @ '' ''
                     @ concat (replicate 3 glyph_rule)) ''success'' st;
          maxLength = 5000;
          displayContent =
            (if length content > maxLength
             then take maxLength content @ [newline, newline] @ ''[... truncated ...]''
             else content);
          st2 = appendOutput displayContent ''code'' st1
      in appendOutput
           (concat (replicate 3 glyph_rule) @ '' End of '' @ fileName @ '' ''
              @ concat (replicate 3 glyph_rule) @ [newline]) ''success'' st2)"

definition raw_url :: "string \<Rightarrow> string \<Rightarrow> string \<Rightarrow> string \<Rightarrow> string" where
  "raw_url owner repo branch filePath =
     ''https://raw.githubusercontent.com/'' @ owner @ ''/'' @ repo @ ''/'' @ branch @ ''/'' @ filePath"

text \<open>The \<^verbatim>\<open>catch\<close> block of \<^verbatim>\<open>fetchGitHubFile\<close>.\<close>

definition fetch_error :: "exn \<Rightarrow> state \<Rightarrow> state" where
  "fetch_error e st = appendOutput (''ERROR: '' @ message e) ''error'' st"

definition fetchGitHubFile :: "host \<Rightarrow> string \<Rightarrow> string \<Rightarrow> string \<Rightarrow> state \<Rightarrow> state" where
  "fetchGitHubFile h owner repo filePath st =
     (let rawUrl = raw_url owner repo ''main'' filePath;
          st1 = fetched rawUrl st
      in case fetch h rawUrl of
           Rejected e \<Rightarrow> fetch_error e st1
         | Response response_ok response_text \<Rightarrow>
             if \<not> response_ok then
               (let masterUrl = raw_url owner repo ''master'' filePath;
                    st2 = fetched masterUrl st1
                in case fetch h masterUrl of
                     Rejected e \<Rightarrow> fetch_error e st2
                   | Response master_ok master_text \<Rightarrow>
                       if \<not> master_ok then
                         fetch_error (Error (''File not found: '' @ filePath)) st2
                       else (case master_text of
                               Inl e \<Rightarrow> fetch_error e st2
                             | Inr content \<Rightarrow> displayFileContent filePath content st2))
             else (case response_text of
                     Inl e \<Rightarrow> fetch_error e st1
                   | Inr content \<Rightarrow> displayFileContent filePath content st1))"

definition commonFiles :: "string list" where
  "commonFiles = [''README.md'', ''package.json'', ''manifest.json'', ''SECURITY.md'', ''LICENSE'']"

text \<open>One round of the \<^verbatim>\<open>for\<close> loop of \<^verbatim>\<open>fetchGitHubTree\<close>; a rejected fetch is swallowed.\<close>

definition probe_file :: "host \<Rightarrow> string \<Rightarrow> string \<Rightarrow> string \<Rightarrow> state \<Rightarrow> state" where
  "probe_file h owner repo file st =
     (let rawUrl = raw_url owner repo ''main'' file;
          st1 = fetched rawUrl st
      in case fetch h rawUrl of
           Rejected e \<Rightarrow> st1
         | Response response_ok response_text \<Rightarrow>
             if response_ok then appendOutput (''  '' @ glyph_check @ '' '' @ file) ''success'' st1
             else st1)"

definition fetchGitHubTree :: "host \<Rightarrow> string \<Rightarrow> string \<Rightarrow> state \<Rightarrow> state" where
  "fetchGitHubTree h owner repo st =
     (let st1 = appendOutput ''INFO: Tree view requires GitHub API access'' ''warning'' st;
          st2 = appendOutput ''Attempting to fetch common files...'' ''success'' st1
      in foldl (\<lambda>s file. probe_file h owner repo file s) st2 commonFiles)"

definition scrapeGitHub :: "host \<Rightarrow> string list \<Rightarrow> state \<Rightarrow> outcome" where
  "scrapeGitHub h args st =
     (let action = first_lower args
      in case validatedUrl st of
           None \<Rightarrow> (Some (Error ''Cannot read properties of null (reading 'pathname')''), st)
         | Some url \<Rightarrow>
             (let pathParts = filter (\<lambda>p. p \<noteq> []) (split_char CHR ''/'' (pathname url))
              in if \<not> includes_str (hostname url) ''github.com'' \<or> length pathParts < 2 then
                   ok (appendOutput ''ERROR: Invalid GitHub repository URL'' ''error'' st)
                 else
                   (let owner = pathParts ! 0;
                        repo = pathParts ! 1;
                        st1 = appendOutput (''Scraping GitHub: '' @ owner @ ''/'' @ repo) ''success'' st
                    in if action = Some ''readme'' then
                         ok (fetchGitHubFile h owner repo ''README.md'' st1)
                       else if action = Some ''tree'' then
                         ok (fetchGitHubTree h owner repo st1)
                       else if action = Some ''file'' then
                         (let filePath = join_space (drop 1 args)
                          in if filePath = [] then
                               ok (appendOutput ''ERROR: Please specify a file path'' ''error'' st1)
                             else ok (fetchGitHubFile h owner repo filePath st1))
                       else
                         ok (appendOutput
                               ''ERROR: Unknown GitHub action. Use: readme, tree, or file <path>''
                               ''error'' st1))))"

definition scrapePageText_code :: "string" where
  "scrapePageText_code =
        [newline]
      @ ''      (() => {'' @ [newline]
      @ ''        const body = document.body;'' @ [newline]
      @ ''        const text = body.innerText || body.textContent;'' @ [newline]
      @ ''        return { text: text.substring(0, 5000) }; // Limit output'' @ [newline]
      @ ''      })()'' @ [newline]
      @ ''    ''"

definition scrapePageLinks_code :: "string" where
  "scrapePageLinks_code =
        [newline]
      @ ''      (() => {'' @ [newline]
      @ ''        const links = Array.from(document.querySelectorAll('' @ [quote] @ ''a[href]'' @ [quote] @ ''));'' @ [newline]
      @ ''        return {'' @ [newline]
      @ ''          count: links.length,'' @ [newline]
      @ ''          links: links.slice(0, 100).map(a => ({'' @ [newline]
      @ ''            text: a.textContent.trim().substring(0, 50),'' @ [newline]
      @ ''            href: a.href'' @ [newline]
      @ ''          }))'' @ [newline]
      @ ''        };'' @ [newline]
      @ ''      })()'' @ [newline]
      @ ''    ''"

definition scrapePageMeta_code :: "string" where
  "scrapePageMeta_code =
        [newline]
      @ ''      (() => {'' @ [newline]
      @ ''        const metas = Array.from(document.querySelectorAll('' @ [quote] @ ''meta'' @ [quote] @ ''));'' @ [newline]
      @ ''        return {'' @ [newline]
      @ ''          title: document.title,'' @ [newline]
      @ ''          metas: metas.map(m => ({'' @ [newline]
      @ ''            name: m.getAttribute('' @ [quote] @ ''name'' @ [quote] @ '') || m.getAttribute('' @ [quote] @ ''property'' @ [quote] @ ''),'' @ [newline]
      @ ''            content: m.getAttribute('' @ [quote] @ ''content'' @ [quote] @ '')'' @ [newline]
      @ ''          })).filter(m => m.name)'' @ [newline]
      @ ''        };'' @ [newline]
      @ ''      })()'' @ [newline]
      @ ''    ''"

definition scrapePage :: "host \<Rightarrow> string list \<Rightarrow> state \<Rightarrow> outcome" where
  "scrapePage h args st =
     (let action = first_lower args
      in if action = Some ''text'' then
           executeInPage h scrapePageText_code (Some PageTextResult) st
         else if action = Some ''links'' then
           executeInPage h scrapePageLinks_code (Some PageLinksResult) st
         else if action = Some ''meta'' then
           executeInPage h scrapePageMeta_code (Some PageMetaResult) st
         else ok (appendOutput ''ERROR: Unknown page action. Use: text, links, or meta''
                    ''error'' st))"

definition handleScrapeCommand :: "host \<Rightarrow> string list \<Rightarrow> state \<Rightarrow> outcome" where
  "handleScrapeCommand h args st =
     (if validatedUrl st = None then
        ok (appendOutput ''ERROR: Please validate a Target URL first'' ''error'' st)
      else
        finally_do
          (let st1 = setStatusIndicator ''scraping'' True st;
               type = first_lower args
           in if type = Some ''github'' then scrapeGitHub h (drop 1 args) st1
              else if type = Some ''page'' then scrapePage h (drop 1 args) st1
              else ok (appendOutput ''ERROR: Unknown scrape type. Use: github or page''
                         ''error'' st1))
          (setStatusIndicator ''scraping'' False))"

subsection \<open>Target URL validation\<close>

definition validateTargetUrl :: "host \<Rightarrow> state \<Rightarrow> state" where
  "validateTargetUrl h st =
     (let url = trim (targetUrl st)
      in if url = [] then appendOutput ''ERROR: Please enter a URL'' ''error'' st
         else
           (let parsed =
                  (case URL_new h url of
                     Inl e \<Rightarrow> Inl e
                   | Inr parsedUrl \<Rightarrow>
                       if protocol parsedUrl \<notin> set [''http:'', ''https:'']
                       then Inl (Error ''Only HTTP and HTTPS protocols are supported'')
                       else Inr parsedUrl)
            in case parsed of
                 Inr parsedUrl \<Rightarrow>
                   appendOutput (glyph_check @ '' Target URL validated: '' @ url) ''success''
                     (st\<lparr> validatedUrl := Some parsedUrl,
                          targetUrl_borderColor := ''var(--text-primary)'' \<rparr>)
               | Inl e \<Rightarrow>
                   appendOutput (''ERROR: Invalid URL - '' @ message e) ''error''
                     (st\<lparr> validatedUrl := None,
                          targetUrl_borderColor := ''var(--text-error)'' \<rparr>)))"

subsection \<open>The dispatcher\<close>

text \<open>The lines of the template literal \<^verbatim>\<open>helpText\<close>; the literal begins and ends with
  a line break, so the first and the last line are empty.\<close>

definition helpLines :: "string list" where
  "helpLines =
     [[],
      concat (replicate 63 glyph_double_rule),
      ''AVAILABLE COMMANDS'',
      concat (replicate 63 glyph_double_rule),
      [],
      ''JAVASCRIPT SNIPPET EXECUTION:'',
      ''  <javascript code>          Execute JavaScript in page context'',
      ''  eval <code>                Explicitly evaluate JavaScript'',
      ''  Examples:'',
      ''    document.title'',
      ''    Array.from(document.links).map(l => l.href)'',
      ''    window.location.href'',
      [],
      ''DOM MODIFICATION:'',
      ''  dom set <selector> <value>     Set text content of elements'',
      ''  dom html <selector> <html>     Set innerHTML of elements'',
      ''  dom attr <selector> <attr> <value>  Set attribute'',
      ''  dom replace <old> <new>        Replace text in page'',
      ''  Examples:'',
      ''    dom set h1 '' @ [dquote] @ ''New Heading'' @ [dquote],
      ''    dom html #content '' @ [dquote] @ ''<p>Updated</p>'' @ [dquote],
      ''    dom attr .button disabled true'',
      ''    dom replace '' @ [dquote] @ ''old text'' @ [dquote] @ '' '' @ [dquote] @ ''new text'' @ [dquote],
      [],
      ''SCRAPING (requires validated Target URL):'',
      ''  scrape github readme           Fetch README.md'',
      ''  scrape github tree             Show repository structure'',
      ''  scrape github file <path>      Fetch specific file'',
      ''  scrape page text               Extract visible text'',
      ''  scrape page links              Extract all links'',
      ''  scrape page meta               Extract meta tags'',
      [],
      ''UTILITY:'',
      ''  help                          Show this help'',
      ''  clear                         Clear terminal output'',
      [],
      concat (replicate 63 glyph_double_rule),
      ''ETHICAL USAGE GUIDELINES'',
      concat (replicate 63 glyph_double_rule),
      [],
      glyph_check @ '' Only operate on tabs you explicitly opened'',
      glyph_check @ '' Only scrape public repositories and websites'',
      glyph_check @ '' Respect robots.txt and terms of service'',
      glyph_check @ '' Use for authorized bug bounty research only'',
      glyph_check @ '' No automated crawling or rate limit abuse'',
      [],
      glyph_cross @ '' No authentication bypass attempts'',
      glyph_cross @ '' No private content access'',
      glyph_cross @ '' No data exfiltration'',
      glyph_cross @ '' No malicious code injection'',
      [],
      concat (replicate 63 glyph_double_rule),
      []]"

text \<open>The lines joined by line breaks.\<close>

fun join_lines :: "string list \<Rightarrow> string" where
  "join_lines [] = []"
| "join_lines [x] = x"
| "join_lines (x # y # ys) = x @ [newline] @ join_lines (y # ys)"

definition helpText :: "string" where
  "helpText = join_lines helpLines"

definition showHelp :: "state \<Rightarrow> state" where
  "showHelp st = appendOutput helpText ''success'' st"

definition clearTerminal :: "state \<Rightarrow> state" where
  "clearTerminal st =
     appendOutput ''Terminal cleared.'' ''success''
       (st\<lparr> output_lines := [], trace := trace st @ [Cleared] \<rparr>)"

text \<open>The \<^verbatim>\<open>switch\<close> inside the \<^verbatim>\<open>try\<close> block of \<^verbatim>\<open>parseCommand\<close>: the handler that the
  lowercased first token selects.\<close>

definition parseCommand_switch :: "host \<Rightarrow> string \<Rightarrow> string list \<Rightarrow> string \<Rightarrow> state \<Rightarrow> outcome" where
  "parseCommand_switch h command parts mainCommand st =
     (if mainCommand = ''help'' then ok (showHelp st)
      else if mainCommand = ''clear'' then ok (clearTerminal st)
      else if mainCommand = ''scrape'' then handleScrapeCommand h (drop 1 parts) st
      else if mainCommand = ''dom'' then handleDomCommand h (drop 1 parts) st
      else if mainCommand = ''eval'' \<or> mainCommand = ''exec'' \<or> mainCommand = ''run'' then
        handleSnippetExecution h (trim (drop (length mainCommand) command)) st
      else handleSnippetExecution h command st)"

definition parseCommand :: "host \<Rightarrow> string \<Rightarrow> state \<Rightarrow> outcome" where
  "parseCommand h command st =
     (case split_ws command of
        [] \<Rightarrow> (Some (Error ''Cannot read properties of undefined (reading 'toLowerCase')''), st)
      | first # rest \<Rightarrow>
          (let parts = first # rest;
               mainCommand = toLowerCase first
           in catch_with (parseCommand_switch h command parts mainCommand st)
                (\<lambda>error. appendOutput (''ERROR: '' @ message error) ''error'')))"

definition executeCommand :: "host \<Rightarrow> state \<Rightarrow> outcome" where
  "executeCommand h st =
     (let command = trim (commandInput st)
      in if command = [] then ok st
         else
           (let st1 = st\<lparr> commandHistory := command # commandHistory st, historyIndex := -1 \<rparr>;
                st2 = appendOutput (''researcher@browser:~$ '' @ command) ''command-line'' st1;
                st3 = st2\<lparr> commandInput := [] \<rparr>
            in and_then (parseCommand h command st3)
                 (\<lambda>st4. ok (st4\<lparr> trace := trace st4 @ [Scrolled] \<rparr>))))"

text \<open>\<^verbatim>\<open>handleKeyDown(e)\<close> for \<^verbatim>\<open>e.key\<close>; \<^verbatim>\<open>e.preventDefault()\<close> does not touch
  the state.\<close>

definition handleKeyDown :: "host \<Rightarrow> string \<Rightarrow> state \<Rightarrow> outcome" where
  "handleKeyDown h key st =
     (if key = ''Enter'' then executeCommand h st
      else if key = ''ArrowUp'' then ok (navigateHistory ''up'' st)
      else if key = ''ArrowDown'' then ok (navigateHistory ''down'' st)
      else ok st)"

subsection \<open>Runs of the panel\<close>

text \<open>What can happen to the panel: the user edits the command line or the URL field,
  presses a key in one of them, clicks the validate button (the listeners of \<^verbatim>\<open>init\<close>), or
  the transport completes a pending call. An exception that leaves a listener or a callback
  ends that turn only; the state stays as it was left.\<close>

datatype action =
    Typed string
  | KeyDown string
  | UrlTyped string
  | UrlKeyDown string
  | ValidateClicked
  | Completes nat jsval jsval

fun step :: "host \<Rightarrow> action \<Rightarrow> state \<Rightarrow> state" where
  "step h (Typed s) st = st\<lparr> commandInput := s \<rparr>"
| "step h (KeyDown key) st = snd (handleKeyDown h key st)"
| "step h (UrlTyped s) st = st\<lparr> targetUrl := s \<rparr>"
| "step h (UrlKeyDown key) st = (if key = ''Enter'' then validateTargetUrl h st else st)"
| "step h ValidateClicked st = validateTargetUrl h st"
| "step h (Completes i result isException) st =
     snd (transport_completes h i result isException st)"

fun run :: "host \<Rightarrow> action list \<Rightarrow> state \<Rightarrow> state" where
  "run h [] st = st"
| "run h (a # as) st = run h as (step h a st)"

subsection \<open>Notions used to state the properties\<close>

text \<open>Where a single-quoted string literal of a script closes: the scan starts after the
  opening quote; a backslash takes the character after it along (an escape sequence or a
  line continuation); the first quote met otherwise closes the literal. The result is the
  text between the quotes and the script text after the closing quote; \<open>None\<close> means
  that the literal is never closed.\<close>

fun literal_end :: "string \<Rightarrow> (string \<times> string) option" where
  "literal_end [] = None"
| "literal_end (c # cs) =
     (if c = quote then Some ([], cs)
      else if c = backslash then
        (case cs of
           [] \<Rightarrow> None
         | d # ds \<Rightarrow>
             (case literal_end ds of
                None \<Rightarrow> None
              | Some (body, rest) \<Rightarrow> Some (c # d # body, rest)))
      else
        (case literal_end cs of
           None \<Rightarrow> None
         | Some (body, rest) \<Rightarrow> Some (c # body, rest)))"

text \<open>A generated script embeds an argument \<open>arg\<close> as a quote, \<open>replace_quotes arg\<close>,
  a quote, and then goes on with \<open>rest\<close>. The literal closes where intended when the
  scan from behind the opening quote reads exactly the replaced argument and stops in front
  of \<open>rest\<close>.\<close>

definition closes_as_intended :: "string \<Rightarrow> string \<Rightarrow> bool" where
  "closes_as_intended arg rest \<longleftrightarrow>
     literal_end (replace_quotes arg @ quote # rest) = Some (replace_quotes arg, rest)"

text \<open>The events that a step from \<open>st\<close> to \<open>st'\<close> added to the trace.\<close>

definition new_events :: "state \<Rightarrow> state \<Rightarrow> event list" where
  "new_events st st' = drop (length (trace st)) (trace st')"

text \<open>The start half of the bracket: every call of the transport in a list of events
  comes directly after an execution-start message (\<open>prev\<close> is the event in front of the
  list, if any). Nothing is said here about the end message.\<close>

fun started_from :: "event option \<Rightarrow> event list \<Rightarrow> bool" where
  "started_from prev [] = True"
| "started_from prev (e # es) =
     ((case e of Evaluated code \<Rightarrow> prev = Some (Sent EXECUTION_START) | _ \<Rightarrow> True)
      \<and> started_from (Some e) es)"

definition calls_started :: "event list \<Rightarrow> bool" where
  "calls_started es = started_from None es"

text \<open>The end half is counted: the execution-end messages in a list of events, and the
  codes of the transport calls in it that the host took.\<close>

definition ends_sent :: "event list \<Rightarrow> nat" where
  "ends_sent es = length (filter (\<lambda>e. e = Sent EXECUTION_END) es)"

fun accepted_calls :: "host \<Rightarrow> event list \<Rightarrow> string list" where
  "accepted_calls h [] = []"
| "accepted_calls h (e # es) =
     (case e of
        Evaluated code \<Rightarrow>
          (if eval_raises h code = None then code # accepted_calls h es
           else accepted_calls h es)
      | _ \<Rightarrow> accepted_calls h es)"

fun is_output :: "event \<Rightarrow> bool" where
  "is_output (Output text type) = True"
| "is_output _ = False"

text \<open>What the dispatch of a command does to the bracket, from \<open>st\<close> to \<open>st'\<close>: the
  trace of \<open>st\<close> is kept; in the events added every transport call is started; no end
  message is added; and the pending calls grow by exactly the calls that the host took, in
  order.\<close>

definition dispatch_adds :: "host \<Rightarrow> state \<Rightarrow> state \<Rightarrow> bool" where
  "dispatch_adds h st st' \<longleftrightarrow>
     take (length (trace st)) (trace st') = trace st
     \<and> calls_started (new_events st st')
     \<and> ends_sent (new_events st st') = 0
     \<and> take (length (pending st)) (pending st') = pending st
     \<and> map fst (drop (length (pending st)) (pending st')) = accepted_calls h (new_events st st')"

text \<open>What a rendering callback does, from \<open>st\<close> to \<open>st'\<close>: it adds output lines to
  the trace and nothing else, and leaves the pending calls alone.\<close>

definition renders :: "state \<Rightarrow> state \<Rightarrow> bool" where
  "renders st st' \<longleftrightarrow>
     take (length (trace st)) (trace st') = trace st
     \<and> list_all is_output (new_events st st')
     \<and> pending st' = pending st"

text \<open>The bracket in a state of a run: every transport call was started, and every call that
  the host took is either still pending or has had its end message.\<close>

definition bracket_invariant :: "host \<Rightarrow> state \<Rightarrow> bool" where
  "bracket_invariant h st \<longleftrightarrow>
     calls_started (trace st)
     \<and> length (accepted_calls h (trace st)) = length (pending st) + ends_sent (trace st)"

text \<open>The events that reach outside the panel: messages, transport calls and fetches.\<close>

fun is_external :: "event \<Rightarrow> bool" where
  "is_external (Sent m) = True"
| "is_external (Evaluated code) = True"
| "is_external (Fetched u) = True"
| "is_external _ = False"

text \<open>Hosts for the examples. On the first no call raises, only the README of
  \<^verbatim>\<open>acme/widget\<close> on branch \<^verbatim>\<open>master\<close> can be fetched, and the built-ins answer for
  the few values that the examples use (two URLs, strings and \<^verbatim>\<open>undefined\<close> for
  \<^verbatim>\<open>String\<close>, \<^verbatim>\<open>null\<close> and the empty object for \<^verbatim>\<open>JSON.stringify\<close>, numbers for the
  comparison). On the second the messaging channel raises, on the third only its
  execution-end message does, and on the fourth the call of the transport raises.\<close>

definition example_host :: host where
  "example_host = \<lparr>
     sendMessage_raises = (\<lambda>m. None),
     eval_raises = (\<lambda>code. None),
     fetch = (\<lambda>u. if u = ''https://raw.githubusercontent.com/acme/widget/master/README.md''
                    then Response True (Inr ''# widget'')
                    else Response False (Inr ''404: Not Found'')),
     URL_new = (\<lambda>s. if s = ''https://github.com/acme/widget''
                      then Inr \<lparr> protocol = ''https:'', hostname = ''github.com'',
                                 pathname = ''/acme/widget'' \<rparr>
                      else if s = ''ftp://example.org/x''
                      then Inr \<lparr> protocol = ''ftp:'', hostname = ''example.org'',
                                 pathname = ''/x'' \<rparr>
                      else Inl (Error ''Invalid URL'')),
     ToString = (\<lambda>v. case v of JString s \<Rightarrow> s | _ \<Rightarrow> ''undefined''),
     JSON_stringify = (\<lambda>v. case v of JNull \<Rightarrow> ''null'' | _ \<Rightarrow> ''{}''),
     greater_than_zero = (\<lambda>v. case v of JNumber n \<Rightarrow> 0 < n | _ \<Rightarrow> False) \<rparr>"

definition broken_host :: host where
  "broken_host = example_host\<lparr>
     sendMessage_raises := (\<lambda>m. Some (Error ''Extension context invalidated.'')) \<rparr>"

definition end_refusing_host :: host where
  "end_refusing_host = example_host\<lparr>
     sendMessage_raises := (\<lambda>m. if m = EXECUTION_END
                                  then Some (Error ''Extension context invalidated.'')
                                  else None) \<rparr>"

definition call_refusing_host :: host where
  "call_refusing_host = example_host\<lparr>
     eval_raises := (\<lambda>code. Some (Error ''Extension context invalidated.'')) \<rparr>"

section \<open>Properties\<close>

subsection \<open>Splitting a command line\<close>

lemma split_ws_nonempty: "split_ws s \<noteq> []"
  by (induction s rule: split_ws.induct) (auto split: list.splits)

lemma parseCommand_unfold:
  "parseCommand h command st =
     catch_with
       (parseCommand_switch h command (split_ws command) (toLowerCase (hd (split_ws command))) st)
       (\<lambda>error. appendOutput (''ERROR: '' @ message error) ''error'')"
  using split_ws_nonempty [of command]
  by (cases "split_ws command") (simp_all add: parseCommand_def)

lemma hd_split_ws: "hd (split_ws s) = takeWhile (\<lambda>c. \<not> is_space c) s"
  using split_ws_nonempty by (induction s rule: split_ws.induct) (auto split: list.splits)

lemma length_toLowerCase: "length (toLowerCase s) = length s"
  by (simp add: toLowerCase_def)

lemma catch_with_ok [simp]: "catch_with (ok st) k = ok st"
  by (simp add: catch_with_def ok_def)

subsection \<open>Traces and pending calls\<close>

text \<open>Dispatching a command only adds to the trace and to the pending calls. The lemmas
  are stated relative to an earlier state \<open>s0\<close>, so that they chain.\<close>

lemma trace_appendOutput: "trace (appendOutput t c st) = trace st @ [Output t c]"
  by (simp add: appendOutput_def)

lemma pending_appendOutput: "pending (appendOutput t c st) = pending st"
  by (simp add: appendOutput_def)

lemma trace_fetched: "trace (fetched u st) = trace st @ [Fetched u]"
  by (simp add: fetched_def)

lemma pending_fetched: "pending (fetched u st) = pending st"
  by (simp add: fetched_def)

lemma trace_setStatusIndicator: "trace (setStatusIndicator t a st) = trace st"
  by (simp add: setStatusIndicator_def)

lemma pending_setStatusIndicator: "pending (setStatusIndicator t a st) = pending st"
  by (simp add: setStatusIndicator_def)

lemma new_events_appendOutput: "new_events st (appendOutput t c st) = [Output t c]"
  by (simp add: new_events_def trace_appendOutput)

lemma started_from_None: "started_from None es \<Longrightarrow> started_from p es"
  by (cases es) (auto split: event.splits)

lemma started_from_append:
  "started_from p xs \<Longrightarrow> started_from None ys \<Longrightarrow> started_from p (xs @ ys)"
  by (induction xs arbitrary: p) (auto simp: started_from_None)

lemma calls_started_append:
  "calls_started xs \<Longrightarrow> calls_started ys \<Longrightarrow> calls_started (xs @ ys)"
  by (simp add: calls_started_def started_from_append)

lemma ends_sent_append: "ends_sent (xs @ ys) = ends_sent xs + ends_sent ys"
  by (simp add: ends_sent_def)

lemma accepted_calls_append:
  "accepted_calls h (xs @ ys) = accepted_calls h xs @ accepted_calls h ys"
  by (induction xs) (auto split: event.splits)

lemma dispatch_addsI:
  "trace st' = trace st @ es \<Longrightarrow> pending st' = pending st @ ps \<Longrightarrow> calls_started es \<Longrightarrow>
   ends_sent es = 0 \<Longrightarrow> map fst ps = accepted_calls h es \<Longrightarrow> dispatch_adds h st st'"
  by (simp add: dispatch_adds_def new_events_def)

lemma dispatch_adds_trace:
  "dispatch_adds h st st' \<Longrightarrow> trace st' = trace st @ new_events st st'"
  by (metis dispatch_adds_def append_take_drop_id new_events_def)

lemma dispatch_adds_pending:
  "dispatch_adds h st st' \<Longrightarrow>
   pending st' = pending st @ drop (length (pending st)) (pending st')"
  by (metis dispatch_adds_def append_take_drop_id)

lemma dispatch_adds_refl: "dispatch_adds h st st"
  by (simp add: dispatch_adds_def new_events_def calls_started_def ends_sent_def)

lemma dispatch_adds_trans:
  assumes "dispatch_adds h a b" and "dispatch_adds h b c"
  shows "dispatch_adds h a c"
proof -
  let ?ps = "drop (length (pending a)) (pending b) @ drop (length (pending b)) (pending c)"
  let ?es = "new_events a b @ new_events b c"
  have t: "trace c = trace a @ ?es"
    using assms by (metis dispatch_adds_trace append.assoc)
  have p: "pending c = pending a @ ?ps"
    using assms by (metis dispatch_adds_pending append.assoc)
  have "calls_started ?es" "ends_sent ?es = 0" "map fst ?ps = accepted_calls h ?es"
    using assms
    by (simp_all add: dispatch_adds_def calls_started_append ends_sent_append
        accepted_calls_append)
  with t p show ?thesis by (rule dispatch_addsI)
qed

lemma adds_more:
  assumes "dispatch_adds h s0 st" and "trace st' = trace st @ es"
    and "pending st' = pending st @ ps" and "calls_started es" and "ends_sent es = 0"
    and "map fst ps = accepted_calls h es"
  shows "dispatch_adds h s0 st'"
  using assms(1) dispatch_addsI [OF assms(2-6)] by (rule dispatch_adds_trans)

lemma adds_appendOutput:
  "dispatch_adds h s0 st \<Longrightarrow> dispatch_adds h s0 (appendOutput t c st)"
  by (erule adds_more [where es = "[Output t c]" and ps = "[]"])
     (simp_all add: trace_appendOutput pending_appendOutput calls_started_def ends_sent_def)

lemma adds_fetched:
  "dispatch_adds h s0 st \<Longrightarrow> dispatch_adds h s0 (fetched u st)"
  by (erule adds_more [where es = "[Fetched u]" and ps = "[]"])
     (simp_all add: trace_fetched pending_fetched calls_started_def ends_sent_def)

lemma adds_setStatusIndicator:
  "dispatch_adds h s0 st \<Longrightarrow> dispatch_adds h s0 (setStatusIndicator t a st)"
  by (erule adds_more [where es = "[]" and ps = "[]"])
     (simp_all add: trace_setStatusIndicator pending_setStatusIndicator calls_started_def
        ends_sent_def)

lemma trace_executeInPage:
  "trace (snd (executeInPage h code callback st)) = trace st @
     (if sendMessage_raises h EXECUTION_START = None
      then [Sent EXECUTION_START, Evaluated code] else [Sent EXECUTION_START])"
  by (cases "sendMessage_raises h EXECUTION_START"; cases "eval_raises h code")
     (simp_all add: executeInPage_def sendMessage_def inspectedWindow_eval_def and_then_def)

lemma pending_executeInPage:
  "pending (snd (executeInPage h code callback st)) = pending st @
     (if sendMessage_raises h EXECUTION_START = None \<and> eval_raises h code = None
      then [(code, callback)] else [])"
  by (cases "sendMessage_raises h EXECUTION_START"; cases "eval_raises h code")
     (simp_all add: executeInPage_def sendMessage_def inspectedWindow_eval_def and_then_def)

lemma new_events_executeInPage:
  "new_events st (snd (executeInPage h code callback st)) =
     (if sendMessage_raises h EXECUTION_START = None
      then [Sent EXECUTION_START, Evaluated code] else [Sent EXECUTION_START])"
  by (simp add: new_events_def trace_executeInPage)

lemma adds_executeInPage:
  "dispatch_adds h s0 st \<Longrightarrow> dispatch_adds h s0 (snd (executeInPage h code callback st))"
  by (erule adds_more [OF _ trace_executeInPage pending_executeInPage])
     (simp_all add: calls_started_def ends_sent_def)

lemma adds_handleSnippetExecution:
  "dispatch_adds h s0 st \<Longrightarrow> dispatch_adds h s0 (snd (handleSnippetExecution h code st))"
  by (simp add: handleSnippetExecution_def ok_def finally_do_def
      adds_appendOutput adds_setStatusIndicator adds_executeInPage)

lemma adds_domSetText:
  "dispatch_adds h s0 st \<Longrightarrow> dispatch_adds h s0 (snd (domSetText h args st))"
  by (simp add: domSetText_def ok_def adds_appendOutput adds_executeInPage)

lemma adds_domSetHtml:
  "dispatch_adds h s0 st \<Longrightarrow> dispatch_adds h s0 (snd (domSetHtml h args st))"
  by (simp add: domSetHtml_def ok_def adds_appendOutput adds_executeInPage)

lemma adds_domSetAttribute:
  "dispatch_adds h s0 st \<Longrightarrow> dispatch_adds h s0 (snd (domSetAttribute h args st))"
  by (simp add: domSetAttribute_def ok_def adds_appendOutput adds_executeInPage)

lemma adds_domReplaceText:
  "dispatch_adds h s0 st \<Longrightarrow> dispatch_adds h s0 (snd (domReplaceText h args st))"
  by (simp add: domReplaceText_def ok_def adds_appendOutput adds_executeInPage)

lemma adds_handleDomCommand:
  "dispatch_adds h s0 st \<Longrightarrow> dispatch_adds h s0 (snd (handleDomCommand h args st))"
  by (simp add: handleDomCommand_def Let_def ok_def finally_do_def adds_setStatusIndicator
      adds_domSetText adds_domSetHtml adds_domSetAttribute adds_domReplaceText adds_appendOutput)

lemma adds_displayFileContent:
  "dispatch_adds h s0 st \<Longrightarrow> dispatch_adds h s0 (displayFileContent f c st)"
  by (simp add: displayFileContent_def Let_def adds_appendOutput)

lemma adds_fetch_error:
  "dispatch_adds h s0 st \<Longrightarrow> dispatch_adds h s0 (fetch_error e st)"
  by (simp add: fetch_error_def adds_appendOutput)

lemma adds_fetchGitHubFile:
  "dispatch_adds h s0 st \<Longrightarrow> dispatch_adds h s0 (fetchGitHubFile h owner repo f st)"
  by (simp add: fetchGitHubFile_def Let_def adds_fetched adds_fetch_error adds_displayFileContent
      split: fetch_result.splits sum.splits)

lemma adds_probe_file:
  "dispatch_adds h s0 st \<Longrightarrow> dispatch_adds h s0 (probe_file h owner repo f st)"
  by (simp add: probe_file_def Let_def adds_fetched adds_appendOutput split: fetch_result.splits)

lemma adds_foldl_probe:
  "dispatch_adds h s0 st \<Longrightarrow>
   dispatch_adds h s0 (foldl (\<lambda>s file. probe_file h owner repo file s) st files)"
  by (induction files arbitrary: st) (simp_all add: adds_probe_file)

lemma adds_fetchGitHubTree:
  "dispatch_adds h s0 st \<Longrightarrow> dispatch_adds h s0 (fetchGitHubTree h owner repo st)"
  by (simp add: fetchGitHubTree_def Let_def adds_appendOutput adds_foldl_probe)

lemma adds_scrapeGitHub:
  "dispatch_adds h s0 st \<Longrightarrow> dispatch_adds h s0 (snd (scrapeGitHub h args st))"
  by (simp add: scrapeGitHub_def Let_def ok_def adds_appendOutput adds_fetchGitHubFile
      adds_fetchGitHubTree split: option.splits)

lemma adds_scrapePage:
  "dispatch_adds h s0 st \<Longrightarrow> dispatch_adds h s0 (snd (scrapePage h args st))"
  by (simp add: scrapePage_def Let_def ok_def adds_appendOutput adds_executeInPage)

lemma adds_handleScrapeCommand:
  "dispatch_adds h s0 st \<Longrightarrow> dispatch_adds h s0 (snd (handleScrapeCommand h args st))"
  by (simp add: handleScrapeCommand_def Let_def ok_def finally_do_def adds_setStatusIndicator
      adds_scrapeGitHub adds_scrapePage adds_appendOutput)

lemma adds_clearTerminal:
  "dispatch_adds h s0 st \<Longrightarrow> dispatch_adds h s0 (clearTerminal st)"
  unfolding clearTerminal_def
  by (erule adds_more [where es = "[Cleared, Output ''Terminal cleared.'' ''success'']"
        and ps = "[]"])
     (simp_all add: trace_appendOutput pending_appendOutput calls_started_def ends_sent_def)

lemma adds_parseCommand_switch:
  "dispatch_adds h s0 st \<Longrightarrow>
   dispatch_adds h s0 (snd (parseCommand_switch h command parts mainCommand st))"
  by (simp add: parseCommand_switch_def ok_def showHelp_def adds_appendOutput adds_clearTerminal
      adds_handleScrapeCommand adds_handleDomCommand adds_handleSnippetExecution)

lemma adds_catch_with:
  "dispatch_adds h s0 (snd r) \<Longrightarrow>
   (\<And>e s. dispatch_adds h s0 s \<Longrightarrow> dispatch_adds h s0 (k e s))
   \<Longrightarrow> dispatch_adds h s0 (snd (catch_with r k))"
  by (cases r) (simp add: catch_with_def split: option.splits)

lemma adds_and_then:
  "dispatch_adds h s0 (snd r) \<Longrightarrow>
   (\<And>s. dispatch_adds h s0 s \<Longrightarrow> dispatch_adds h s0 (snd (f s)))
   \<Longrightarrow> dispatch_adds h s0 (snd (and_then r f))"
  by (cases r) (simp add: and_then_def split: option.splits)

lemma adds_parseCommand:
  "dispatch_adds h s0 st \<Longrightarrow> dispatch_adds h s0 (snd (parseCommand h command st))"
  unfolding parseCommand_unfold
  by (intro adds_catch_with adds_parseCommand_switch adds_appendOutput)

lemma adds_executeCommand:
  "dispatch_adds h s0 st \<Longrightarrow> dispatch_adds h s0 (snd (executeCommand h st))"
proof -
  assume a: "dispatch_adds h s0 st"
  have scroll: "dispatch_adds h s0 s \<Longrightarrow>
      dispatch_adds h s0 (s\<lparr> trace := trace s @ [Scrolled] \<rparr>)" for s
    by (erule adds_more [where es = "[Scrolled]" and ps = "[]"])
       (simp_all add: calls_started_def ends_sent_def)
  have start: "dispatch_adds h s0
      ((appendOutput t c (st\<lparr> commandHistory := hs, historyIndex := i \<rparr>))\<lparr> commandInput := [] \<rparr>)"
    for t c hs i
    by (rule adds_more [OF a, where es = "[Output t c]" and ps = "[]"])
       (simp_all add: trace_appendOutput pending_appendOutput calls_started_def ends_sent_def)
  show ?thesis
    unfolding executeCommand_def Let_def
    by (auto simp: ok_def a scroll intro!: adds_and_then adds_parseCommand start)
qed

lemma adds_navigateHistory:
  "dispatch_adds h s0 st \<Longrightarrow> dispatch_adds h s0 (navigateHistory d st)"
  by (erule adds_more [where es = "[]" and ps = "[]"])
     (simp_all add: navigateHistory_def calls_started_def ends_sent_def)

lemma adds_handleKeyDown:
  "dispatch_adds h s0 st \<Longrightarrow> dispatch_adds h s0 (snd (handleKeyDown h key st))"
  by (simp add: handleKeyDown_def ok_def adds_executeCommand adds_navigateHistory)

lemma adds_validateTargetUrl:
  "dispatch_adds h s0 st \<Longrightarrow> dispatch_adds h s0 (validateTargetUrl h st)"
proof -
  assume a: "dispatch_adds h s0 st"
  have upd: "dispatch_adds h s0
      (appendOutput t c (st\<lparr> validatedUrl := v, targetUrl_borderColor := b \<rparr>))" for t c v b
    by (rule adds_more [OF a, where es = "[Output t c]" and ps = "[]"])
       (simp_all add: trace_appendOutput pending_appendOutput calls_started_def ends_sent_def)
  show ?thesis
    by (simp add: validateTargetUrl_def Let_def a adds_appendOutput upd split: sum.splits)
qed

subsection \<open>Rendering callbacks\<close>

lemma rendersI:
  "trace st' = trace st @ es \<Longrightarrow> list_all is_output es \<Longrightarrow> pending st' = pending st \<Longrightarrow>
   renders st st'"
  by (simp add: renders_def new_events_def)

lemma renders_refl: "renders st st"
  by (simp add: renders_def new_events_def)

lemma renders_appendOutput:
  assumes "renders s0 st"
  shows "renders s0 (appendOutput t c st)"
proof -
  have "trace st = trace s0 @ new_events s0 st"
    using assms by (metis renders_def append_take_drop_id new_events_def)
  then have "trace (appendOutput t c st) = trace s0 @ (new_events s0 st @ [Output t c])"
    by (simp add: trace_appendOutput)
  moreover have "list_all is_output (new_events s0 st @ [Output t c])"
    using assms by (simp add: renders_def)
  moreover have "pending (appendOutput t c st) = pending s0"
    using assms by (simp add: renders_def pending_appendOutput)
  ultimately show ?thesis by (rule rendersI)
qed

lemma renders_links_forEach:
  "renders s0 st \<Longrightarrow> renders s0 (snd (links_forEach h links st))"
  by (induction links arbitrary: st) (simp_all add: ok_def renders_appendOutput)

lemma renders_metas_forEach:
  "renders s0 st \<Longrightarrow> renders s0 (snd (metas_forEach h metas st))"
  by (induction metas arbitrary: st) (simp_all add: ok_def renders_appendOutput)

lemma renders_run_callback:
  "renders s0 st \<Longrightarrow> renders s0 (snd (run_callback h cb result isException st))"
  by (cases cb)
     (simp_all add: handleSnippetExecution_callback_def domSetText_callback_def
        domSetHtml_callback_def domSetAttribute_callback_def domReplaceText_callback_def
        scrapePageText_callback_def scrapePageLinks_callback_def scrapePageMeta_callback_def
        Let_def ok_def renders_appendOutput renders_links_forEach renders_metas_forEach
        split: jsval.splits)

subsection \<open>Completions and runs\<close>

lemma events_after_end:
  "list_all is_output outs \<Longrightarrow>
   started_from p (Sent EXECUTION_END # outs)
   \<and> accepted_calls h (Sent EXECUTION_END # outs) = []
   \<and> ends_sent (Sent EXECUTION_END # outs) = 1"
proof (induction outs rule: rev_induct)
  case Nil
  show ?case by (simp add: ends_sent_def)
next
  case (snoc e outs)
  then obtain t c where e: "e = Output t c" by (cases e) auto
  from snoc have IH: "started_from p (Sent EXECUTION_END # outs)"
    "accepted_calls h (Sent EXECUTION_END # outs) = []"
    "ends_sent (Sent EXECUTION_END # outs) = 1" by simp_all
  have "started_from p ((Sent EXECUTION_END # outs) @ [e])"
    by (rule started_from_append [OF IH(1)]) (simp add: e)
  moreover have "accepted_calls h ((Sent EXECUTION_END # outs) @ [e]) = []"
    by (simp only: accepted_calls_append IH(2)) (simp add: e)
  moreover have "ends_sent ((Sent EXECUTION_END # outs) @ [e]) = 1"
    by (simp only: ends_sent_append IH(3)) (simp add: e ends_sent_def)
  ultimately show ?case by simp
qed

lemma renders_trace: "renders st st' \<Longrightarrow> trace st' = trace st @ new_events st st'"
  by (metis renders_def append_take_drop_id new_events_def)

lemma completion_events:
  assumes "i < length (pending st)"
  shows "\<exists>outs. trace (snd (transport_completes h i result isException st))
                 = trace st @ Sent EXECUTION_END # outs
             \<and> list_all is_output outs
             \<and> pending (snd (transport_completes h i result isException st))
                 = take i (pending st) @ drop (Suc i) (pending st)"
proof -
  let ?s0 = "st\<lparr> pending := take i (pending st) @ drop (Suc i) (pending st) \<rparr>"
  let ?s1 = "?s0\<lparr> trace := trace ?s0 @ [Sent EXECUTION_END] \<rparr>"
  have r: "renders ?s1 (snd (run_callback h cb result isException ?s1))" for cb
    by (rule renders_run_callback [OF renders_refl])
  show ?thesis
  proof (cases "sendMessage_raises h EXECUTION_END")
    case (Some e)
    with assms show ?thesis
      by (simp add: transport_completes_def executeInPage_callback_def sendMessage_def
          and_then_def)
  next
    case None
    show ?thesis
    proof (cases "snd (pending st ! i)")
      case N: None
      with None assms show ?thesis
        by (simp add: transport_completes_def executeInPage_callback_def sendMessage_def
            and_then_def ok_def)
    next
      case (Some cb)
      let ?s2 = "snd (run_callback h cb result isException ?s1)"
      have eq: "snd (transport_completes h i result isException st) = ?s2"
        using None Some assms
        by (simp add: transport_completes_def executeInPage_callback_def sendMessage_def
            and_then_def)
      have "trace ?s2 = trace st @ Sent EXECUTION_END # new_events ?s1 ?s2"
        using renders_trace [OF r [of cb]] by simp
      moreover have "list_all is_output (new_events ?s1 ?s2)"
        using r [of cb] by (simp add: renders_def)
      moreover have "pending ?s2 = take i (pending st) @ drop (Suc i) (pending st)"
        using r [of cb] by (simp add: renders_def)
      ultimately show ?thesis unfolding eq by blast
    qed
  qed
qed

lemma invariant_dispatch:
  assumes "bracket_invariant h st" and "dispatch_adds h st st'"
  shows "bracket_invariant h st'"
proof -
  have t: "trace st' = trace st @ new_events st st'"
    using assms(2) by (rule dispatch_adds_trace)
  have p: "pending st' = pending st @ drop (length (pending st)) (pending st')"
    using assms(2) by (rule dispatch_adds_pending)
  have l: "length (drop (length (pending st)) (pending st'))
      = length (accepted_calls h (new_events st st'))"
    using assms(2) by (metis dispatch_adds_def length_map)
  have "calls_started (trace st @ new_events st st')"
    using assms by (simp add: bracket_invariant_def dispatch_adds_def calls_started_append)
  moreover have "length (accepted_calls h (trace st @ new_events st st'))
      = length (pending st @ drop (length (pending st)) (pending st'))
        + ends_sent (trace st @ new_events st st')"
    using assms l
    by (simp add: bracket_invariant_def dispatch_adds_def accepted_calls_append ends_sent_append)
  ultimately show ?thesis
    unfolding bracket_invariant_def using t p by metis
qed

lemma invariant_completion:
  assumes "bracket_invariant h st"
  shows "bracket_invariant h (snd (transport_completes h i result isException st))"
proof (cases "i < length (pending st)")
  case False
  with assms show ?thesis by (simp add: transport_completes_def ok_def)
next
  case True
  let ?st' = "snd (transport_completes h i result isException st)"
  from completion_events [OF True, of h result isException] obtain outs where
    t: "trace ?st' = trace st @ Sent EXECUTION_END # outs" and o: "list_all is_output outs"
    and p: "pending ?st' = take i (pending st) @ drop (Suc i) (pending st)" by blast
  note e = events_after_end [OF o, of None h]
  have "calls_started (Sent EXECUTION_END # outs)"
    using e by (simp only: calls_started_def)
  with assms have "calls_started (trace st @ Sent EXECUTION_END # outs)"
    by (simp only: bracket_invariant_def calls_started_append)
  moreover have "length (accepted_calls h (trace st @ Sent EXECUTION_END # outs))
      = length (take i (pending st) @ drop (Suc i) (pending st))
        + ends_sent (trace st @ Sent EXECUTION_END # outs)"
    using assms e True
    by (simp only: accepted_calls_append ends_sent_append) (simp add: bracket_invariant_def)
  ultimately show ?thesis
    unfolding bracket_invariant_def t p by simp
qed

lemma invariant_step:
  "bracket_invariant h st \<Longrightarrow> bracket_invariant h (step h a st)"
proof (cases a)
  case (Typed s)
  assume "bracket_invariant h st"
  then show ?thesis by (simp add: Typed bracket_invariant_def)
next
  case (KeyDown key)
  assume "bracket_invariant h st"
  then show ?thesis
    by (simp add: KeyDown invariant_dispatch [OF _ adds_handleKeyDown [OF dispatch_adds_refl]])
next
  case (UrlTyped s)
  assume "bracket_invariant h st"
  then show ?thesis by (simp add: UrlTyped bracket_invariant_def)
next
  case (UrlKeyDown key)
  assume "bracket_invariant h st"
  then show ?thesis
    by (simp add: UrlKeyDown
        invariant_dispatch [OF _ adds_validateTargetUrl [OF dispatch_adds_refl]])
next
  case ValidateClicked
  assume "bracket_invariant h st"
  then show ?thesis
    by (simp add: ValidateClicked
        invariant_dispatch [OF _ adds_validateTargetUrl [OF dispatch_adds_refl]])
next
  case (Completes i result isException)
  assume "bracket_invariant h st"
  then show ?thesis by (simp add: Completes invariant_completion)
qed

lemma invariant_run:
  "bracket_invariant h st \<Longrightarrow> bracket_invariant h (run h as st)"
  by (induction as arbitrary: st) (simp_all add: invariant_step)

lemma invariant_initial: "bracket_invariant h initial"
  by (simp add: bracket_invariant_def initial_def calls_started_def ends_sent_def)

subsection \<open>History navigation\<close>

lemma navigateHistory_range:
  "cursor_in_range st \<Longrightarrow> cursor_in_range (navigateHistory d st)"
  by (auto simp: cursor_in_range_def navigateHistory_def)

lemma navigateHistory_history [simp]:
  "commandHistory (navigateHistory d st) = commandHistory st"
  by (simp add: navigateHistory_def)

lemma navigate_all_range:
  "cursor_in_range st \<Longrightarrow> cursor_in_range (navigate_all ds st)"
  by (induction ds arbitrary: st) (simp_all add: navigateHistory_range)

lemma navigate_all_history [simp]:
  "commandHistory (navigate_all ds st) = commandHistory st"
  by (induction ds arbitrary: st) simp_all

lemma navigateHistory_rest:
  "historyIndex st = -1 \<Longrightarrow> d \<noteq> ''up'' \<Longrightarrow> navigateHistory d st = st"
  by (simp add: navigateHistory_def)

lemma navigate_all_rest:
  "historyIndex st = -1 \<Longrightarrow> navigate_all (replicate k ''down'') st = st"
  by (induction k) (simp_all add: navigateHistory_rest)

text \<open>
  Claim C8. Let the cursor start in the range from -1 to n - 1, where n is the length of
  the history. Then after any sequence of navigations it is still in that range and the
  history is the same; an "up" at the oldest entry (cursor n - 1) changes nothing; a
  "down" at the newest entry (cursor 0) sets the cursor to -1 and empties the edit buffer;
  and any number k of further "down" presses leave the cursor at -1 and the buffer empty.
\<close>

theorem history_cursor_bounds:
  assumes "cursor_in_range st"
  shows "cursor_in_range (navigate_all ds st)
     \<and> commandHistory (navigate_all ds st) = commandHistory st
     \<and> (historyIndex st = int (length (commandHistory st)) - 1 \<longrightarrow>
          navigateHistory ''up'' st = st)
     \<and> (historyIndex st = 0 \<and> d \<noteq> ''up'' \<longrightarrow>
          historyIndex (navigateHistory d st) = -1 \<and> commandInput (navigateHistory d st) = [])
     \<and> (historyIndex st = 0 \<longrightarrow>
          historyIndex (navigate_all (replicate k ''down'') (navigateHistory ''down'' st)) = -1
        \<and> commandInput (navigate_all (replicate k ''down'') (navigateHistory ''down'' st)) = [])"
proof -
  have len: "historyIndex st = 0 \<Longrightarrow> commandHistory st \<noteq> []"
    using assms by (auto simp: cursor_in_range_def)
  have down: "historyIndex st = 0 \<Longrightarrow> d' \<noteq> ''up'' \<Longrightarrow>
      historyIndex (navigateHistory d' st) = -1 \<and> commandInput (navigateHistory d' st) = []" for d'
    using len by (simp add: navigateHistory_def)
  have "historyIndex st = 0 \<Longrightarrow>
      navigate_all (replicate k ''down'') (navigateHistory ''down'' st) = navigateHistory ''down'' st"
    using down [of "''down''"] by (simp add: navigate_all_rest)
  then show ?thesis
    using assms down by (simp add: navigate_all_range navigateHistory_def)
qed

theorem history_cursor_bounds_witness:
  "cursor_in_range (initial\<lparr> commandHistory := [''ls''], historyIndex := 0, commandInput := ''ls'' \<rparr>)
   \<and> historyIndex (navigate_all [''up'', ''down'', ''down'']
        (initial\<lparr> commandHistory := [''ls''], historyIndex := 0, commandInput := ''ls'' \<rparr>)) = -1
   \<and> navigateHistory ''up''
        (initial\<lparr> commandHistory := [''ls''], historyIndex := 0, commandInput := ''ls'' \<rparr>)
      = initial\<lparr> commandHistory := [''ls''], historyIndex := 0, commandInput := ''ls'' \<rparr>
   \<and> commandInput (navigate_all (replicate 3 ''down'') (navigateHistory ''down''
        (initial\<lparr> commandHistory := [''ls''], historyIndex := 0, commandInput := ''ls'' \<rparr>))) = []"
  using history_cursor_bounds
    [of "initial\<lparr> commandHistory := [''ls''], historyIndex := 0, commandInput := ''ls'' \<rparr>"
        "[''up'', ''down'', ''down'']" "''down''" 3]
  by (simp add: cursor_in_range_def initial_def navigateHistory_def)

subsection \<open>Quoting of arguments in generated scripts\<close>

text \<open>For an argument without a backslash the closing quote is found where intended.
  (\<open>literal_end\<close> only looks for that quote; it does not check that the text in between is
  free of line breaks.)\<close>

lemma closes_without_backslash:
  "backslash \<notin> set arg \<Longrightarrow> closes_as_intended arg rest"
  unfolding closes_as_intended_def
  by (induction arg) (auto simp: replace_quotes_def)

text \<open>
  Claim C1 says that replacing every single quote by backslash-quote makes the embedded
  literal close where intended for every argument, also one that contains backslashes. The
  code does not do that: \<open>replace_quotes\<close> leaves a backslash of the argument as it is.
  For the command line \<^verbatim>\<open>dom set \' x\<close> the selector is backslash, quote; it is embedded
  as backslash, backslash, quote. The two backslashes are one escape sequence, so the quote
  after them closes the literal one character early, and the quote that was meant to close
  it is left over in the script.
\<close>

theorem escaping_misses_backslash:
  "(let selector = [backslash, quote];
        after = '');'' @ [newline]
          @ ''        elements.forEach(el => el.textContent = '' @ [quote] @ ''x'' @ [quote]
          @ '');'' @ [newline]
          @ ''        return { count: elements.length };'' @ [newline]
          @ ''      })()'' @ [newline]
          @ ''    ''
    in split_ws (''dom set '' @ selector @ '' x'') = [''dom'', ''set'', selector, ''x'']
     \<and> domSetText h [selector, ''x''] st =
         executeInPage h (domSetText_code selector ''x'') (Some DomSetTextResult) st
     \<and> domSetText_code selector ''x'' =
         [newline] @ ''      (() => {'' @ [newline]
         @ ''        const elements = document.querySelectorAll(''
         @ [quote] @ replace_quotes selector @ [quote] @ after
     \<and> replace_quotes selector = [backslash, backslash, quote]
     \<and> literal_end (replace_quotes selector @ [quote] @ after)
         = Some ([backslash, backslash], [quote] @ after)
     \<and> \<not> closes_as_intended selector after)"
  by (simp add: Let_def is_space_def domSetText_def domSetText_code_def replace_quotes_def
      closes_as_intended_def)

subsection \<open>The dispatcher\<close>

lemma helpLines_entries:
  "helpLines ! 2 = ''AVAILABLE COMMANDS''
   \<and> ''  help                          Show this help'' \<in> set helpLines
   \<and> ''  clear                         Clear terminal output'' \<in> set helpLines
   \<and> length helpLines = 53"
  by (simp add: helpLines_def)

text \<open>
  Claim C2. Let \<open>first\<close> be the line up to its first white-space character; it is the
  first piece of the split and a prefix of the line. Its lowercase form selects one
  handler: \<open>help\<close> shows the help, \<open>clear\<close> clears the terminal, \<open>scrape\<close> and \<open>dom\<close>
  call their family handler with the remaining pieces, \<open>eval\<close>, \<open>exec\<close> and \<open>run\<close> call
  the snippet handler with the trimmed rest of the line behind \<open>first\<close>, and every other
  first token calls the snippet handler with the whole line. (The handler runs inside the
  dispatcher's \<^verbatim>\<open>try\<close> block, which is \<open>caught\<close> below.) Showing the help appends the
  53 lines of the help text, joined, as one line of category success to what the terminal
  shows; clearing the terminal leaves the line \<open>Terminal cleared.\<close> as all that it shows.
\<close>

theorem dispatch_table:
  "(let first = takeWhile (\<lambda>c. \<not> is_space c) command;
        mainCommand = toLowerCase first;
        remaining = drop 1 (split_ws command);
        caught = (\<lambda>r. catch_with r (\<lambda>error. appendOutput (''ERROR: '' @ message error) ''error''))
    in hd (split_ws command) = first
     \<and> command = first @ drop (length first) command
     \<and> parseCommand h command st =
         (if mainCommand = ''help'' then ok (showHelp st)
          else if mainCommand = ''clear'' then ok (clearTerminal st)
          else if mainCommand = ''scrape'' then caught (handleScrapeCommand h remaining st)
          else if mainCommand = ''dom'' then caught (handleDomCommand h remaining st)
          else if mainCommand \<in> {''eval'', ''exec'', ''run''} then
            caught (handleSnippetExecution h (trim (drop (length first) command)) st)
          else caught (handleSnippetExecution h command st))
     \<and> (mainCommand = ''help'' \<longrightarrow>
          parseCommand h command st =
            (None, st\<lparr> output_lines := output_lines st @ [(join_lines helpLines, ''success'')],
                       trace := trace st @ [Output (join_lines helpLines) ''success''] \<rparr>))
     \<and> helpLines ! 2 = ''AVAILABLE COMMANDS''
     \<and> ''  help                          Show this help'' \<in> set helpLines
     \<and> ''  clear                         Clear terminal output'' \<in> set helpLines
     \<and> length helpLines = 53
     \<and> (mainCommand = ''clear'' \<longrightarrow>
          parseCommand h command st =
            (None, st\<lparr> output_lines := [(''Terminal cleared.'', ''success'')],
                       trace := trace st @ [Cleared, Output ''Terminal cleared.'' ''success''] \<rparr>)))"
proof -
  have "takeWhile (\<lambda>c. \<not> is_space c) command
          @ drop (length (takeWhile (\<lambda>c. \<not> is_space c) command)) command = command"
    by (metis append_take_drop_id takeWhile_eq_take)
  then show ?thesis
    by (simp add: Let_def hd_split_ws parseCommand_unfold parseCommand_switch_def
        length_toLowerCase helpLines_entries showHelp_def helpText_def clearTerminal_def
        appendOutput_def ok_def catch_with_def)
qed

lemma toLowerCase_examples:
  "toLowerCase ''RUN'' = ''run''" "toLowerCase ''HELP'' = ''help''"
  by code_simp+

theorem dispatch_table_witness:
  "parseCommand example_host ''HELP'' initial =
     (None, initial\<lparr> output_lines := [(join_lines helpLines, ''success'')],
                     trace := [Output (join_lines helpLines) ''success''] \<rparr>)
   \<and> parseCommand example_host ''clear''
        (initial\<lparr> output_lines := [(''old line'', ''success'')],
                  trace := [Output ''old line'' ''success''] \<rparr>) =
     (None, initial\<lparr> output_lines := [(''Terminal cleared.'', ''success'')],
                     trace := [Output ''old line'' ''success'', Cleared,
                               Output ''Terminal cleared.'' ''success''] \<rparr>)
   \<and> parseCommand example_host ''scrape page text''
        (initial\<lparr> validatedUrl := Some \<lparr> protocol = ''https:'', hostname = ''example.org'',
                                          pathname = ''/'' \<rparr> \<rparr>) =
     (None, initial\<lparr> validatedUrl := Some \<lparr> protocol = ''https:'', hostname = ''example.org'',
                                              pathname = ''/'' \<rparr>,
                     trace := [Sent EXECUTION_START, Evaluated scrapePageText_code],
                     pending := [(scrapePageText_code, Some PageTextResult)] \<rparr>)
   \<and> parseCommand example_host ''dom set h1 Hello world'' initial =
     (None, initial\<lparr> trace := [Sent EXECUTION_START,
                               Evaluated (domSetText_code ''h1'' ''Hello world'')],
                     pending := [(domSetText_code ''h1'' ''Hello world'',
                                  Some DomSetTextResult)] \<rparr>)
   \<and> parseCommand example_host ''RUN  document.title'' initial =
     (None, initial\<lparr> trace := [Sent EXECUTION_START, Evaluated (wrappedCode ''document.title'')],
                     pending := [(wrappedCode ''document.title'', Some SnippetResult)] \<rparr>)
   \<and> parseCommand example_host ''document.title'' initial =
     (None, initial\<lparr> trace := [Sent EXECUTION_START, Evaluated (wrappedCode ''document.title'')],
                     pending := [(wrappedCode ''document.title'', Some SnippetResult)] \<rparr>)"
proof -
  note base = is_space_def trim_def
    handleSnippetExecution_def handleDomCommand_def domSetText_def handleScrapeCommand_def
    scrapePage_def first_lower_def executeInPage_def sendMessage_def inspectedWindow_eval_def
    and_then_def finally_do_def catch_with_def setStatusIndicator_def example_host_def
    initial_def Let_def ok_def
  note run = base toLowerCase_def lower_char_def
  have "parseCommand example_host ''HELP'' initial =
     (None, initial\<lparr> output_lines := [(join_lines helpLines, ''success'')],
                     trace := [Output (join_lines helpLines) ''success''] \<rparr>)"
    using dispatch_table [of "''HELP''" example_host initial]
    by (simp add: is_space_def toLowerCase_examples initial_def Let_def showHelp_def
        helpText_def appendOutput_def ok_def)
  moreover have "parseCommand example_host ''clear''
        (initial\<lparr> output_lines := [(''old line'', ''success'')],
                  trace := [Output ''old line'' ''success''] \<rparr>) =
     (None, initial\<lparr> output_lines := [(''Terminal cleared.'', ''success'')],
                     trace := [Output ''old line'' ''success'', Cleared,
                               Output ''Terminal cleared.'' ''success''] \<rparr>)"
    using dispatch_table [of "''clear''" example_host
        "initial\<lparr> output_lines := [(''old line'', ''success'')],
                  trace := [Output ''old line'' ''success''] \<rparr>"]
    by (simp add: is_space_def toLowerCase_def lower_char_def initial_def Let_def
        clearTerminal_def appendOutput_def ok_def)
  moreover have "parseCommand example_host ''scrape page text''
        (initial\<lparr> validatedUrl := Some \<lparr> protocol = ''https:'', hostname = ''example.org'',
                                          pathname = ''/'' \<rparr> \<rparr>) =
     (None, initial\<lparr> validatedUrl := Some \<lparr> protocol = ''https:'', hostname = ''example.org'',
                                              pathname = ''/'' \<rparr>,
                     trace := [Sent EXECUTION_START, Evaluated scrapePageText_code],
                     pending := [(scrapePageText_code, Some PageTextResult)] \<rparr>)"
    using dispatch_table [of "''scrape page text''" example_host
        "initial\<lparr> validatedUrl := Some \<lparr> protocol = ''https:'', hostname = ''example.org'',
                                          pathname = ''/'' \<rparr> \<rparr>"]
    by (simp add: run)
  moreover have "parseCommand example_host ''dom set h1 Hello world'' initial =
     (None, initial\<lparr> trace := [Sent EXECUTION_START,
                               Evaluated (domSetText_code ''h1'' ''Hello world'')],
                     pending := [(domSetText_code ''h1'' ''Hello world'',
                                  Some DomSetTextResult)] \<rparr>)"
    using dispatch_table [of "''dom set h1 Hello world''" example_host initial]
    by (simp add: run)
  moreover have "parseCommand example_host ''RUN  document.title'' initial =
     (None, initial\<lparr> trace := [Sent EXECUTION_START, Evaluated (wrappedCode ''document.title'')],
                     pending := [(wrappedCode ''document.title'', Some SnippetResult)] \<rparr>)"
    using dispatch_table [of "''RUN  document.title''" example_host initial]
    by (simp add: base toLowerCase_examples)
  moreover have "parseCommand example_host ''document.title'' initial =
     (None, initial\<lparr> trace := [Sent EXECUTION_START, Evaluated (wrappedCode ''document.title'')],
                     pending := [(wrappedCode ''document.title'', Some SnippetResult)] \<rparr>)"
    using dispatch_table [of "''document.title''" example_host initial]
    by (simp add: run)
  ultimately show ?thesis by (intro conjI)
qed

text \<open>
  Claim C6. The dispatcher itself never raises. When the selected handler raises an error
  \<open>e\<close>, leaving the state \<open>st'\<close>, the dispatcher returns normally with \<open>st'\<close> and one more
  line, of category error, made of \<open>ERROR: \<close> and the message of \<open>e\<close>; the handler is not
  run again.
\<close>

theorem dispatcher_catches:
  "fst (parseCommand h command st) = None
   \<and> (parseCommand_switch h command (split_ws command) (toLowerCase (hd (split_ws command))) st
        = (Some e, st') \<longrightarrow>
      parseCommand h command st = (None, appendOutput (''ERROR: '' @ message e) ''error'' st')
      \<and> new_events st' (snd (parseCommand h command st))
          = [Output (''ERROR: '' @ message e) ''error''])"
  by (auto simp: parseCommand_unfold catch_with_def new_events_appendOutput
      split: prod.splits option.splits)

theorem dispatcher_catches_witness:
  "parseCommand_switch broken_host ''1+1'' (split_ws ''1+1'')
       (toLowerCase (hd (split_ws ''1+1''))) initial
     = (Some (Error ''Extension context invalidated.''),
        initial\<lparr> trace := [Sent EXECUTION_START] \<rparr>)
   \<and> parseCommand broken_host ''1+1'' initial =
       (None, initial\<lparr> output_lines := [(''ERROR: Extension context invalidated.'', ''error'')],
                       trace := [Sent EXECUTION_START,
                                 Output ''ERROR: Extension context invalidated.'' ''error''] \<rparr>)"
proof -
  have sw: "parseCommand_switch broken_host ''1+1'' (split_ws ''1+1'')
       (toLowerCase (hd (split_ws ''1+1''))) initial
     = (Some (Error ''Extension context invalidated.''),
        initial\<lparr> trace := [Sent EXECUTION_START] \<rparr>)"
    by (simp add: parseCommand_switch_def is_space_def toLowerCase_def lower_char_def
        handleSnippetExecution_def executeInPage_def sendMessage_def and_then_def finally_do_def
        setStatusIndicator_def broken_host_def example_host_def initial_def)
  show ?thesis
    using dispatcher_catches [of broken_host "''1+1''" initial
        "Error ''Extension context invalidated.''" "initial\<lparr> trace := [Sent EXECUTION_START] \<rparr>"] sw
    by (simp add: appendOutput_def initial_def)
qed

subsection \<open>Scraping\<close>

text \<open>
  Claim C5. Let no target URL be validated and let the first token of the command be
  \<open>scrape\<close> in any letter case. Then the dispatcher adds one line, the error line asking
  for a validated target URL, and nothing else: no message, no transport call and no fetch
  is made, and every other field of the state is as before. For the whole command, entered
  through the input field, the result is that line after the echo of the command, the new
  history entry with the cursor at -1, and the emptied input field.
\<close>

theorem scrape_requires_target:
  assumes "validatedUrl st = None"
      and "toLowerCase (takeWhile (\<lambda>c. \<not> is_space c) command) = ''scrape''"
  shows "parseCommand h command st =
           ok (appendOutput ''ERROR: Please validate a Target URL first'' ''error'' st)
     \<and> snd (parseCommand h command st) =
           st\<lparr> output_lines := output_lines st
                  @ [(''ERROR: Please validate a Target URL first'', ''error'')],
                trace := trace st
                  @ [Output ''ERROR: Please validate a Target URL first'' ''error''] \<rparr>
     \<and> new_events st (snd (parseCommand h command st)) =
           [Output ''ERROR: Please validate a Target URL first'' ''error'']
     \<and> filter is_external (new_events st (snd (parseCommand h command st))) = []
     \<and> (trim (commandInput st) = command \<longrightarrow>
          executeCommand h st =
            ok (st\<lparr> commandHistory := command # commandHistory st,
                    historyIndex := -1,
                    commandInput := [],
                    output_lines := output_lines st @
                      [(''researcher@browser:~$ '' @ command, ''command-line''),
                       (''ERROR: Please validate a Target URL first'', ''error'')],
                    trace := trace st @
                      [Output (''researcher@browser:~$ '' @ command) ''command-line'',
                       Output ''ERROR: Please validate a Target URL first'' ''error'',
                       Scrolled] \<rparr>))"
proof -
  have ne: "command \<noteq> []"
    using assms(2) by (auto simp: toLowerCase_def)
  have p: "parseCommand h command s =
      ok (appendOutput ''ERROR: Please validate a Target URL first'' ''error'' s)"
    if "validatedUrl s = None" for s
    using that assms(2)
    by (simp add: parseCommand_unfold hd_split_ws parseCommand_switch_def handleScrapeCommand_def)
  show ?thesis
    using assms(1) ne
    by (simp add: p executeCommand_def Let_def appendOutput_def ok_def and_then_def new_events_def)
qed

theorem scrape_requires_target_witness:
  "parseCommand example_host ''scrape github readme'' initial =
     (None, initial\<lparr> output_lines := [(''ERROR: Please validate a Target URL first'', ''error'')],
                     trace := [Output ''ERROR: Please validate a Target URL first'' ''error''] \<rparr>)
   \<and> executeCommand example_host (initial\<lparr> commandInput := '' scrape github readme '' \<rparr>) =
     (None, initial\<lparr> commandHistory := [''scrape github readme''],
                     output_lines :=
                       [(''researcher@browser:~$ scrape github readme'', ''command-line''),
                        (''ERROR: Please validate a Target URL first'', ''error'')],
                     trace :=
                       [Output ''researcher@browser:~$ scrape github readme'' ''command-line'',
                        Output ''ERROR: Please validate a Target URL first'' ''error'',
                        Scrolled] \<rparr>)"
  using scrape_requires_target [of initial "''scrape github readme''" example_host]
    scrape_requires_target [of "initial\<lparr> commandInput := '' scrape github readme '' \<rparr>"
      "''scrape github readme''" example_host]
  by (simp add: initial_def toLowerCase_def lower_char_def is_space_def trim_def ok_def
      appendOutput_def)

lemma fetchGitHubFile_main:
  "fetch h (raw_url owner repo ''main'' filePath) = Response True (Inr content) \<Longrightarrow>
   fetchGitHubFile h owner repo filePath st =
     displayFileContent filePath content (fetched (raw_url owner repo ''main'' filePath) st)"
  by (simp add: fetchGitHubFile_def Let_def)

lemma fetchGitHubFile_master:
  "fetch h (raw_url owner repo ''main'' filePath) = Response False any \<Longrightarrow>
   fetch h (raw_url owner repo ''master'' filePath) = Response True (Inr content) \<Longrightarrow>
   fetchGitHubFile h owner repo filePath st =
     displayFileContent filePath content
       (fetched (raw_url owner repo ''master'' filePath)
          (fetched (raw_url owner repo ''main'' filePath) st))"
  by (simp add: fetchGitHubFile_def Let_def)

lemma fetchGitHubFile_not_found:
  "fetch h (raw_url owner repo ''main'' filePath) = Response False any \<Longrightarrow>
   fetch h (raw_url owner repo ''master'' filePath) = Response False any' \<Longrightarrow>
   fetchGitHubFile h owner repo filePath st =
     appendOutput (''ERROR: File not found: '' @ filePath) ''error''
       (fetched (raw_url owner repo ''master'' filePath)
          (fetched (raw_url owner repo ''main'' filePath) st))"
  by (simp add: fetchGitHubFile_def Let_def fetch_error_def)

lemma displayFileContent_state:
  "displayFileContent fileName content st =
     st\<lparr> output_lines := output_lines st @
            [([newline] @ concat (replicate 3 glyph_rule) @ '' '' @ fileName @ '' ''
                @ concat (replicate 3 glyph_rule), ''success''),
             (take 5000 content
                @ (if 5000 < length content then [newline, newline] @ ''[... truncated ...]''
                   else []), ''code''),
             (concat (replicate 3 glyph_rule) @ '' End of '' @ fileName @ '' ''
                @ concat (replicate 3 glyph_rule) @ [newline], ''success'')],
          trace := trace st @
            [Output ([newline] @ concat (replicate 3 glyph_rule) @ '' '' @ fileName @ '' ''
                       @ concat (replicate 3 glyph_rule)) ''success'',
             Output (take 5000 content
                       @ (if 5000 < length content
                          then [newline, newline] @ ''[... truncated ...]'' else []))
                    ''code'',
             Output (concat (replicate 3 glyph_rule) @ '' End of '' @ fileName @ '' ''
                       @ concat (replicate 3 glyph_rule) @ [newline]) ''success''] \<rparr>"
  by (simp add: displayFileContent_def Let_def appendOutput_def)

text \<open>
  Claim C3. \<open>fetchGitHubFile\<close> first fetches the raw-content URL of the path on branch
  \<open>main\<close>. If that response is a success, its content is displayed and nothing else is
  fetched. If it is not, the same path is fetched on branch \<open>master\<close>, once: a success
  displays that content, and a second non-success response gives the single error line
  \<open>ERROR: File not found:\<close> with the path. Displaying appends three lines to what the
  terminal shows: a header line, the content line of category code and a footer line,
  where the content line holds the first 5000 characters of the content and then the
  truncation marker exactly if the content has more than 5000 characters. Nothing else of
  the state changes. (A fetch whose promise is rejected is reported with the message of
  its error; it is none of the cases of the claim.)
\<close>

theorem file_fetch_fallback:
  "(let main = raw_url owner repo ''main'' filePath;
        master = raw_url owner repo ''master'' filePath;
        st' = fetchGitHubFile h owner repo filePath st;
        shown = take 5000 content
                  @ (if 5000 < length content then [newline, newline] @ ''[... truncated ...]''
                     else []);
        header = [newline] @ concat (replicate 3 glyph_rule) @ '' '' @ filePath @ '' ''
                   @ concat (replicate 3 glyph_rule);
        footer = concat (replicate 3 glyph_rule) @ '' End of '' @ filePath @ '' ''
                   @ concat (replicate 3 glyph_rule) @ [newline];
        lines = [(header, ''success''), (shown, ''code''), (footer, ''success'')];
        display = [Output header ''success'', Output shown ''code'', Output footer ''success'']
    in main = ''https://raw.githubusercontent.com/'' @ owner @ ''/'' @ repo @ ''/main/'' @ filePath
     \<and> master =
         ''https://raw.githubusercontent.com/'' @ owner @ ''/'' @ repo @ ''/master/'' @ filePath
     \<and> (fetch h main = Response True (Inr content) \<longrightarrow>
          st' = st\<lparr> output_lines := output_lines st @ lines,
                    trace := trace st @ [Fetched main] @ display \<rparr>
        \<and> new_events st st' = [Fetched main] @ display)
     \<and> (fetch h main = Response False any \<and> fetch h master = Response True (Inr content) \<longrightarrow>
          st' = st\<lparr> output_lines := output_lines st @ lines,
                    trace := trace st @ [Fetched main, Fetched master] @ display \<rparr>
        \<and> new_events st st' = [Fetched main, Fetched master] @ display)
     \<and> (fetch h main = Response False any \<and> fetch h master = Response False any' \<longrightarrow>
          st' = st\<lparr> output_lines := output_lines st
                      @ [(''ERROR: File not found: '' @ filePath, ''error'')],
                    trace := trace st
                      @ [Fetched main, Fetched master,
                         Output (''ERROR: File not found: '' @ filePath) ''error''] \<rparr>
        \<and> new_events st st' =
            [Fetched main, Fetched master,
             Output (''ERROR: File not found: '' @ filePath) ''error''])
     \<and> displayFileContent filePath content st =
          st\<lparr> output_lines := output_lines st @ lines, trace := trace st @ display \<rparr>
     \<and> new_events st (displayFileContent filePath content st) = display
     \<and> (length content \<le> 5000 \<longrightarrow> shown = content)
     \<and> (5000 < length content \<longrightarrow> length shown = 5021))"
proof -
  have 1: "fetch h (raw_url owner repo ''main'' filePath) = Response True (Inr content) \<Longrightarrow>
      fetchGitHubFile h owner repo filePath st =
        displayFileContent filePath content (fetched (raw_url owner repo ''main'' filePath) st)"
    by (simp add: fetchGitHubFile_main)
  have 2: "fetch h (raw_url owner repo ''main'' filePath) = Response False any \<Longrightarrow>
      fetch h (raw_url owner repo ''master'' filePath) = Response True (Inr content) \<Longrightarrow>
      fetchGitHubFile h owner repo filePath st =
        displayFileContent filePath content
          (fetched (raw_url owner repo ''master'' filePath)
             (fetched (raw_url owner repo ''main'' filePath) st))"
    by (simp add: fetchGitHubFile_master)
  have 3: "fetch h (raw_url owner repo ''main'' filePath) = Response False any \<Longrightarrow>
      fetch h (raw_url owner repo ''master'' filePath) = Response False any' \<Longrightarrow>
      fetchGitHubFile h owner repo filePath st =
        appendOutput (''ERROR: File not found: '' @ filePath) ''error''
          (fetched (raw_url owner repo ''master'' filePath)
             (fetched (raw_url owner repo ''main'' filePath) st))"
    by (simp add: fetchGitHubFile_not_found)
  show ?thesis
    unfolding Let_def new_events_def
    by (intro conjI impI)
       (simp_all add: 1 2 3 displayFileContent_state fetched_def appendOutput_def raw_url_def)
qed

theorem file_fetch_fallback_witness:
  "fetchGitHubFile example_host ''acme'' ''widget'' ''README.md'' initial =
     initial\<lparr> output_lines :=
                [([newline] @ concat (replicate 3 glyph_rule) @ '' README.md ''
                    @ concat (replicate 3 glyph_rule), ''success''),
                 (''# widget'', ''code''),
                 (concat (replicate 3 glyph_rule) @ '' End of README.md ''
                    @ concat (replicate 3 glyph_rule) @ [newline], ''success'')],
              trace :=
                [Fetched ''https://raw.githubusercontent.com/acme/widget/main/README.md'',
                 Fetched ''https://raw.githubusercontent.com/acme/widget/master/README.md'',
                 Output ([newline] @ concat (replicate 3 glyph_rule) @ '' README.md ''
                           @ concat (replicate 3 glyph_rule)) ''success'',
                 Output ''# widget'' ''code'',
                 Output (concat (replicate 3 glyph_rule) @ '' End of README.md ''
                           @ concat (replicate 3 glyph_rule) @ [newline]) ''success''] \<rparr>
   \<and> fetchGitHubFile example_host ''acme'' ''widget'' ''LICENSE'' initial =
     initial\<lparr> output_lines := [(''ERROR: File not found: LICENSE'', ''error'')],
              trace :=
                [Fetched ''https://raw.githubusercontent.com/acme/widget/main/LICENSE'',
                 Fetched ''https://raw.githubusercontent.com/acme/widget/master/LICENSE'',
                 Output ''ERROR: File not found: LICENSE'' ''error''] \<rparr>
   \<and> fetchGitHubFile
        (example_host\<lparr> fetch := (\<lambda>u. Response True (Inr (replicate 5001 CHR ''a''))) \<rparr>)
        ''acme'' ''widget'' ''big.txt'' initial =
     initial\<lparr> output_lines :=
                [([newline] @ concat (replicate 3 glyph_rule) @ '' big.txt ''
                    @ concat (replicate 3 glyph_rule), ''success''),
                 (replicate 5000 CHR ''a'' @ [newline, newline] @ ''[... truncated ...]'',
                  ''code''),
                 (concat (replicate 3 glyph_rule) @ '' End of big.txt ''
                    @ concat (replicate 3 glyph_rule) @ [newline], ''success'')],
              trace :=
                [Fetched ''https://raw.githubusercontent.com/acme/widget/main/big.txt'',
                 Output ([newline] @ concat (replicate 3 glyph_rule) @ '' big.txt ''
                           @ concat (replicate 3 glyph_rule)) ''success'',
                 Output (replicate 5000 CHR ''a'' @ [newline, newline]
                           @ ''[... truncated ...]'') ''code'',
                 Output (concat (replicate 3 glyph_rule) @ '' End of big.txt ''
                           @ concat (replicate 3 glyph_rule) @ [newline]) ''success''] \<rparr>"
  using
    file_fetch_fallback [where h = example_host and owner = "''acme''" and repo = "''widget''"
      and filePath = "''README.md''" and content = "''# widget''" and st = initial
      and any = "Inr ''404: Not Found''"]
    file_fetch_fallback [where h = example_host and owner = "''acme''" and repo = "''widget''"
      and filePath = "''LICENSE''" and st = initial
      and any = "Inr ''404: Not Found''" and any' = "Inr ''404: Not Found''"]
    file_fetch_fallback [where h = "example_host\<lparr> fetch := (\<lambda>u. Response True (Inr (replicate 5001 CHR ''a''))) \<rparr>"
      and owner = "''acme''" and repo = "''widget''"
      and filePath = "''big.txt''" and content = "replicate 5001 CHR ''a''" and st = initial]
  by (simp add: Let_def raw_url_def example_host_def initial_def)

subsection \<open>Snippet execution and missing arguments\<close>

text \<open>
  Claim C4 fails on the code in two places. It says that the line for an exception of the
  transport is of a category of its own, as against the error line; in the code both lines
  have the category \<open>error\<close> and differ by their text (\<open>EXCEPTION: \<close> and \<open>ERROR: \<close>).
  And it says that every completion renders one line; the function that the transport calls
  sends the execution-end message first, and if the messaging channel raises there, no
  line is rendered. Both are shown at concrete inputs: an exception report, a caught
  error, and a run in which the end message is refused.
\<close>

theorem snippet_rendering_counterexample:
  "output_lines (snd (handleSnippetExecution_callback example_host JUndefined (JObject []) initial))
     = [(''EXCEPTION: undefined'', ''error'')]
   \<and> output_lines (snd (handleSnippetExecution_callback example_host
        (JObject [(''success'', JBool False), (''error'', JString ''boom'')]) JUndefined initial))
     = [(''ERROR: boom'', ''error'')]
   \<and> pending (run end_refusing_host [Typed ''1'', KeyDown ''Enter''] initial)
     = [(wrappedCode ''1'', Some SnippetResult)]
   \<and> output_lines (run end_refusing_host [Typed ''1'', KeyDown ''Enter''] initial)
     = [(''researcher@browser:~$ 1'', ''command-line'')]
   \<and> output_lines (run end_refusing_host
        [Typed ''1'', KeyDown ''Enter'',
         Completes 0 (JObject [(''success'', JBool True), (''result'', JNull)]) JUndefined]
        initial)
     = [(''researcher@browser:~$ 1'', ''command-line'')]"
proof -
  have p: "parseCommand end_refusing_host ''1'' st =
     (None, st\<lparr> trace := trace st @ [Sent EXECUTION_START, Evaluated (wrappedCode ''1'')],
                 snippetStatus := False,
                 pending := pending st @ [(wrappedCode ''1'', Some SnippetResult)] \<rparr>)" for st
    by (simp add: parseCommand_def is_space_def toLowerCase_def lower_char_def
        parseCommand_switch_def handleSnippetExecution_def executeInPage_def sendMessage_def
        inspectedWindow_eval_def and_then_def finally_do_def catch_with_def
        setStatusIndicator_def Let_def end_refusing_host_def example_host_def)
  have r: "run end_refusing_host [Typed ''1'', KeyDown ''Enter''] initial =
     initial\<lparr> commandHistory := [''1''],
              output_lines := [(''researcher@browser:~$ 1'', ''command-line'')],
              trace := [Output ''researcher@browser:~$ 1'' ''command-line'',
                        Sent EXECUTION_START, Evaluated (wrappedCode ''1''), Scrolled],
              pending := [(wrappedCode ''1'', Some SnippetResult)] \<rparr>"
    by (simp add: handleKeyDown_def executeCommand_def trim_def is_space_def p Let_def
        and_then_def ok_def appendOutput_def initial_def)
  have c: "run end_refusing_host
        [Typed ''1'', KeyDown ''Enter'',
         Completes 0 (JObject [(''success'', JBool True), (''result'', JNull)]) JUndefined]
        initial =
      snd (transport_completes end_refusing_host 0
        (JObject [(''success'', JBool True), (''result'', JNull)]) JUndefined
        (run end_refusing_host [Typed ''1'', KeyDown ''Enter''] initial))"
    by simp
  have e: "output_lines (snd (transport_completes end_refusing_host 0 v x
        (initial\<lparr> commandHistory := [''1''],
              output_lines := [(''researcher@browser:~$ 1'', ''command-line'')],
              trace := [Output ''researcher@browser:~$ 1'' ''command-line'',
                        Sent EXECUTION_START, Evaluated (wrappedCode ''1''), Scrolled],
              pending := [(wrappedCode ''1'', Some SnippetResult)] \<rparr>)))
      = [(''researcher@browser:~$ 1'', ''command-line'')]" for v x
    by (simp add: transport_completes_def executeInPage_callback_def sendMessage_def
        and_then_def end_refusing_host_def example_host_def initial_def)
  have x: "output_lines (snd (handleSnippetExecution_callback example_host JUndefined
        (JObject []) initial)) = [(''EXCEPTION: undefined'', ''error'')]"
    "output_lines (snd (handleSnippetExecution_callback example_host
        (JObject [(''success'', JBool False), (''error'', JString ''boom'')]) JUndefined initial))
     = [(''ERROR: boom'', ''error'')]"
    by (simp_all add: handleSnippetExecution_callback_def ok_def appendOutput_def initial_def
        example_host_def)
  show ?thesis
    unfolding c unfolding r e by (simp add: x)
qed

text \<open>
  Claim C4 as amended. When the transport completes a pending snippet execution and the
  execution-end message is sent without an exception, exactly one line is appended to what
  the terminal shows, chosen in this order: if the transport reports an exception, the line
  \<open>EXCEPTION: \<close> with the delivered value, of category error; else if the delivered value
  is truthy and its \<open>success\<close> is falsy, the line \<open>ERROR: \<close> with its \<open>error\<close>, of
  category error; else if its \<open>result\<close> is not undefined, the dump by
  \<^verbatim>\<open>JSON.stringify(_, null, 2)\<close> of that result, of category success; else the text
  \<open>undefined\<close>, of category success. For the values that the wrapped code returns this
  means: \<open>{success: false, error}\<close> gives the error line with the message,
  \<open>{success: true, result}\<close> the dump of the result, and a missing result the text
  \<open>undefined\<close>.
\<close>

theorem snippet_rendering:
  "(let text =
          (if truthy isException then ''EXCEPTION: '' @ ToString h result
           else if truthy result \<and> \<not> truthy (get_prop result ''success'') then
             ''ERROR: '' @ ToString h (get_prop result ''error'')
           else if truthy result \<and> get_prop result ''result'' \<noteq> JUndefined then
             JSON_stringify h (get_prop result ''result'')
           else ''undefined'');
        category =
          (if truthy isException \<or> (truthy result \<and> \<not> truthy (get_prop result ''success''))
           then ''error'' else ''success'')
    in handleSnippetExecution_callback h result isException st =
         (None, st\<lparr> output_lines := output_lines st @ [(text, category)],
                    trace := trace st @ [Output text category] \<rparr>)
     \<and> (i < length (pending st) \<and> snd (pending st ! i) = Some SnippetResult
        \<and> sendMessage_raises h EXECUTION_END = None \<longrightarrow>
          transport_completes h i result isException st =
            (None, st\<lparr> pending := take i (pending st) @ drop (Suc i) (pending st),
                       output_lines := output_lines st @ [(text, category)],
                       trace := trace st @ [Sent EXECUTION_END, Output text category] \<rparr>)))
   \<and> (truthy exc \<longrightarrow>
        handleSnippetExecution_callback h result exc st =
          ok (appendOutput (''EXCEPTION: '' @ ToString h result) ''error'' st))
   \<and> (\<not> truthy noexc \<longrightarrow>
        handleSnippetExecution_callback h
            (JObject [(''success'', JBool False), (''error'', err)]) noexc st =
          ok (appendOutput (''ERROR: '' @ ToString h err) ''error'' st)
      \<and> (v \<noteq> JUndefined \<longrightarrow>
          handleSnippetExecution_callback h
              (JObject [(''success'', JBool True), (''result'', v)]) noexc st =
            ok (appendOutput (JSON_stringify h v) ''success'' st))
      \<and> handleSnippetExecution_callback h (JObject [(''success'', JBool True)]) noexc st =
          ok (appendOutput ''undefined'' ''success'' st)
      \<and> handleSnippetExecution_callback h JUndefined noexc st =
          ok (appendOutput ''undefined'' ''success'' st))"
proof -
  define shown where "shown =
          (if truthy isException then ''EXCEPTION: '' @ ToString h result
           else if truthy result \<and> \<not> truthy (get_prop result ''success'') then
             ''ERROR: '' @ ToString h (get_prop result ''error'')
           else if truthy result \<and> get_prop result ''result'' \<noteq> JUndefined then
             JSON_stringify h (get_prop result ''result'')
           else ''undefined'')"
  define category where "category =
          (if truthy isException \<or> (truthy result \<and> \<not> truthy (get_prop result ''success''))
           then ''error'' else ''success'')"
  have "handleSnippetExecution_callback h result isException s =
      ok (appendOutput shown category s)" for s
    unfolding shown_def category_def by (simp add: handleSnippetExecution_callback_def)
  then have cb: "handleSnippetExecution_callback h result isException s =
      (None, s\<lparr> output_lines := output_lines s @ [(shown, category)],
                 trace := trace s @ [Output shown category] \<rparr>)" for s
    by (simp add: ok_def appendOutput_def)
  have tc: "i < length (pending st) \<and> snd (pending st ! i) = Some SnippetResult
        \<and> sendMessage_raises h EXECUTION_END = None \<longrightarrow>
      transport_completes h i result isException st =
      (None, st\<lparr> pending := take i (pending st) @ drop (Suc i) (pending st),
                 output_lines := output_lines st @ [(shown, category)],
                 trace := trace st @ [Sent EXECUTION_END, Output shown category] \<rparr>)"
  proof
    assume a: "i < length (pending st) \<and> snd (pending st ! i) = Some SnippetResult
        \<and> sendMessage_raises h EXECUTION_END = None"
    then have "transport_completes h i result isException st =
        handleSnippetExecution_callback h result isException
          (st\<lparr> pending := take i (pending st) @ drop (Suc i) (pending st),
               trace := trace st @ [Sent EXECUTION_END] \<rparr>)"
      by (simp add: transport_completes_def executeInPage_callback_def sendMessage_def
          and_then_def)
    then show "transport_completes h i result isException st =
      (None, st\<lparr> pending := take i (pending st) @ drop (Suc i) (pending st),
                 output_lines := output_lines st @ [(shown, category)],
                 trace := trace st @ [Sent EXECUTION_END, Output shown category] \<rparr>)"
      by (simp add: cb)
  qed
  have shapes: "(truthy exc \<longrightarrow>
        handleSnippetExecution_callback h result exc st =
          ok (appendOutput (''EXCEPTION: '' @ ToString h result) ''error'' st))
   \<and> (\<not> truthy noexc \<longrightarrow>
        handleSnippetExecution_callback h
            (JObject [(''success'', JBool False), (''error'', err)]) noexc st =
          ok (appendOutput (''ERROR: '' @ ToString h err) ''error'' st)
      \<and> (v \<noteq> JUndefined \<longrightarrow>
          handleSnippetExecution_callback h
              (JObject [(''success'', JBool True), (''result'', v)]) noexc st =
            ok (appendOutput (JSON_stringify h v) ''success'' st))
      \<and> handleSnippetExecution_callback h (JObject [(''success'', JBool True)]) noexc st =
          ok (appendOutput ''undefined'' ''success'' st)
      \<and> handleSnippetExecution_callback h JUndefined noexc st =
          ok (appendOutput ''undefined'' ''success'' st))"
    by (simp add: handleSnippetExecution_callback_def)
  show ?thesis
    unfolding Let_def
    apply (fold shown_def category_def)
    apply (rule conjI)
     apply (rule conjI)
      apply (rule cb)
     apply (rule tc)
    apply (rule shapes)
    done
qed

theorem snippet_rendering_witness:
  "transport_completes example_host 0 JUndefined (JObject [])
       (initial\<lparr> pending := [(wrappedCode ''x'', Some SnippetResult)] \<rparr>) =
     (None, initial\<lparr> output_lines := [(''EXCEPTION: undefined'', ''error'')],
                     trace := [Sent EXECUTION_END, Output ''EXCEPTION: undefined'' ''error''] \<rparr>)
   \<and> handleSnippetExecution_callback example_host
        (JObject [(''success'', JBool False), (''error'', JString ''x is not defined'')])
        JUndefined initial =
     (None, initial\<lparr> output_lines := [(''ERROR: x is not defined'', ''error'')],
                     trace := [Output ''ERROR: x is not defined'' ''error''] \<rparr>)
   \<and> handleSnippetExecution_callback example_host
        (JObject [(''success'', JBool True), (''result'', JNull)]) JUndefined initial =
     (None, initial\<lparr> output_lines := [(''null'', ''success'')],
                     trace := [Output ''null'' ''success''] \<rparr>)
   \<and> handleSnippetExecution_callback example_host
        (JObject [(''success'', JBool True)]) JUndefined initial =
     (None, initial\<lparr> output_lines := [(''undefined'', ''success'')],
                     trace := [Output ''undefined'' ''success''] \<rparr>)"
  using snippet_rendering [where h = example_host and exc = "JObject []"
      and st = "initial\<lparr> pending := [(wrappedCode ''x'', Some SnippetResult)] \<rparr>"
      and i = 0 and result = JUndefined and isException = "JObject []"]
    snippet_rendering [where h = example_host and st = initial and noexc = JUndefined
      and err = "JString ''x is not defined''" and v = JNull]
  by (simp add: ok_def appendOutput_def initial_def example_host_def Let_def)

text \<open>
  Claim C7. An empty snippet source, fewer than two arguments for \<open>dom set\<close>, \<open>dom html\<close>
  and \<open>dom replace\<close>, and fewer than three for \<open>dom attr\<close> each end the handler at once
  with one error line; this adds no message, no transport call and no fetch to the trace.
\<close>

theorem missing_arguments:
  "handleSnippetExecution h [] st = ok (appendOutput ''ERROR: No code provided'' ''error'' st)
   \<and> (length args < 2 \<longrightarrow>
        domSetText h args st =
          ok (appendOutput ''ERROR: Usage: dom set <selector> <text>'' ''error'' st)
      \<and> domSetHtml h args st =
          ok (appendOutput ''ERROR: Usage: dom html <selector> <html>'' ''error'' st)
      \<and> domReplaceText h args st =
          ok (appendOutput ''ERROR: Usage: dom replace <old text> <new text>'' ''error'' st))
   \<and> (length args' < 3 \<longrightarrow>
        domSetAttribute h args' st =
          ok (appendOutput ''ERROR: Usage: dom attr <selector> <attribute> <value>'' ''error'' st))
   \<and> new_events st (snd (ok (appendOutput text ''error'' st))) = [Output text ''error'']
   \<and> filter is_external (new_events st (snd (ok (appendOutput text ''error'' st)))) = []"
  by (simp add: handleSnippetExecution_def domSetText_def domSetHtml_def domReplaceText_def
      domSetAttribute_def ok_def new_events_appendOutput)

theorem missing_arguments_witness:
  "domSetText example_host [''h1''] initial =
     (None, initial\<lparr> output_lines := [(''ERROR: Usage: dom set <selector> <text>'', ''error'')],
                     trace := [Output ''ERROR: Usage: dom set <selector> <text>'' ''error''] \<rparr>)
   \<and> domSetAttribute example_host [''h1'', ''title''] initial =
     (None, initial\<lparr> output_lines :=
                       [(''ERROR: Usage: dom attr <selector> <attribute> <value>'', ''error'')],
                     trace :=
                       [Output ''ERROR: Usage: dom attr <selector> <attribute> <value>'' ''error''] \<rparr>)"
  using missing_arguments [where h = example_host and st = initial and args = "[''h1'']"
      and args' = "[''h1'', ''title'']"]
  by (simp add: ok_def appendOutput_def initial_def)

subsection \<open>The execution bracket\<close>

text \<open>
  Claim C9 fails on the code where the call of the transport itself raises: the start
  message is out, the call is made, nothing is pending afterwards and no end message is
  ever sent for that call. On a host whose transport refuses the call, the command
  \<open>document.title\<close> leaves exactly this trace, and a later completion finds nothing to
  complete.
\<close>

theorem execution_bracket_counterexample:
  "trace (run call_refusing_host [Typed ''document.title'', KeyDown ''Enter''] initial) =
     [Output ''researcher@browser:~$ document.title'' ''command-line'',
      Sent EXECUTION_START,
      Evaluated (wrappedCode ''document.title''),
      Output ''ERROR: Extension context invalidated.'' ''error'',
      Scrolled]
   \<and> pending (run call_refusing_host [Typed ''document.title'', KeyDown ''Enter''] initial) = []
   \<and> ends_sent (trace (run call_refusing_host
        [Typed ''document.title'', KeyDown ''Enter'', Completes 0 JUndefined JUndefined]
        initial)) = 0"
proof -
  have p: "parseCommand call_refusing_host ''document.title'' st =
     (None, st\<lparr> trace := trace st @
                   [Sent EXECUTION_START, Evaluated (wrappedCode ''document.title''),
                    Output ''ERROR: Extension context invalidated.'' ''error''],
                 snippetStatus := False,
                 output_lines := output_lines st
                   @ [(''ERROR: Extension context invalidated.'', ''error'')] \<rparr>)" for st
    by (simp add: parseCommand_def is_space_def toLowerCase_def lower_char_def
        parseCommand_switch_def handleSnippetExecution_def executeInPage_def sendMessage_def
        inspectedWindow_eval_def and_then_def finally_do_def catch_with_def appendOutput_def
        setStatusIndicator_def Let_def call_refusing_host_def example_host_def)
  have r: "run call_refusing_host [Typed ''document.title'', KeyDown ''Enter''] initial =
     initial\<lparr> commandHistory := [''document.title''],
              output_lines := [(''researcher@browser:~$ document.title'', ''command-line''),
                               (''ERROR: Extension context invalidated.'', ''error'')],
              trace := [Output ''researcher@browser:~$ document.title'' ''command-line'',
                        Sent EXECUTION_START,
                        Evaluated (wrappedCode ''document.title''),
                        Output ''ERROR: Extension context invalidated.'' ''error'',
                        Scrolled] \<rparr>"
    by (simp add: handleKeyDown_def executeCommand_def trim_def is_space_def p Let_def
        and_then_def ok_def appendOutput_def initial_def)
  have c: "run call_refusing_host
        [Typed ''document.title'', KeyDown ''Enter'', Completes 0 JUndefined JUndefined]
        initial =
      snd (transport_completes call_refusing_host 0 JUndefined JUndefined
        (run call_refusing_host [Typed ''document.title'', KeyDown ''Enter''] initial))"
    by simp
  show ?thesis
    unfolding c unfolding r
    by (simp add: transport_completes_def ok_def ends_sent_def initial_def)
qed

text \<open>
  Claim C9 as amended. \<open>executeInPage\<close> sends the execution-start message directly before
  it calls the transport, and a call that the host takes is pending from then on, with the
  callback it was made with. When the transport completes a pending call, the first thing
  added to the trace is the execution-end message, whatever result and exception are
  reported; after it come only output lines, those of the rendering callback, which runs
  on the state that already holds the end message; and the call is no longer pending.
  Dispatching a command adds no end message and makes pending exactly the calls that the
  host took. So in every run from the initial state every transport call comes directly
  after a start message, and every call that the host took is either still pending or has
  had its end message.
\<close>

theorem execution_bracket:
  "new_events st (snd (executeInPage h code callback st)) =
     (if sendMessage_raises h EXECUTION_START = None
      then [Sent EXECUTION_START, Evaluated code] else [Sent EXECUTION_START])
   \<and> pending (snd (executeInPage h code callback st)) =
       pending st @
       (if sendMessage_raises h EXECUTION_START = None \<and> eval_raises h code = None
        then [(code, callback)] else [])
   \<and> (i < length (pending st) \<longrightarrow>
        (let st' = snd (transport_completes h i result isException st)
         in take (length (trace st)) (trace st') = trace st
          \<and> hd (new_events st st') = Sent EXECUTION_END
          \<and> list_all is_output (tl (new_events st st'))
          \<and> ends_sent (new_events st st') = 1
          \<and> pending st' = take i (pending st) @ drop (Suc i) (pending st)))
   \<and> (i < length (pending st) \<and> snd (pending st ! i) = Some cb
        \<and> sendMessage_raises h EXECUTION_END = None \<longrightarrow>
        transport_completes h i result isException st =
          run_callback h cb result isException
            (st\<lparr> pending := take i (pending st) @ drop (Suc i) (pending st),
                 trace := trace st @ [Sent EXECUTION_END] \<rparr>))
   \<and> dispatch_adds h st (snd (parseCommand h command st))
   \<and> dispatch_adds h st (snd (executeCommand h st))
   \<and> bracket_invariant h initial
   \<and> (bracket_invariant h st \<longrightarrow> bracket_invariant h (run h actions st))"
proof -
  have c: "take (length (trace st)) (trace st') = trace st
      \<and> hd (new_events st st') = Sent EXECUTION_END
      \<and> list_all is_output (tl (new_events st st'))
      \<and> ends_sent (new_events st st') = 1
      \<and> pending st' = take i (pending st) @ drop (Suc i) (pending st)"
    if "i < length (pending st)" and "st' = snd (transport_completes h i result isException st)"
    for st'
  proof -
    from completion_events [OF that(1), of h result isException] that(2) obtain outs where
      t: "trace st' = trace st @ Sent EXECUTION_END # outs" and o: "list_all is_output outs"
      and p: "pending st' = take i (pending st) @ drop (Suc i) (pending st)" by blast
    from events_after_end [OF o, of None h] t o p show ?thesis
      by (simp add: new_events_def)
  qed
  have r: "transport_completes h i result isException st =
      run_callback h cb result isException
        (st\<lparr> pending := take i (pending st) @ drop (Suc i) (pending st),
             trace := trace st @ [Sent EXECUTION_END] \<rparr>)"
    if "i < length (pending st)" and "snd (pending st ! i) = Some cb"
      and "sendMessage_raises h EXECUTION_END = None"
    using that
    by (simp add: transport_completes_def executeInPage_callback_def sendMessage_def
        and_then_def)
  show ?thesis
    unfolding Let_def
  proof (intro conjI impI)
    show "new_events st (snd (executeInPage h code callback st)) =
       (if sendMessage_raises h EXECUTION_START = None
        then [Sent EXECUTION_START, Evaluated code] else [Sent EXECUTION_START])"
      by (rule new_events_executeInPage)
    show "pending (snd (executeInPage h code callback st)) =
       pending st @
       (if sendMessage_raises h EXECUTION_START = None \<and> eval_raises h code = None
        then [(code, callback)] else [])"
      by (rule pending_executeInPage)
    show "dispatch_adds h st (snd (parseCommand h command st))"
      by (rule adds_parseCommand [OF dispatch_adds_refl])
    show "dispatch_adds h st (snd (executeCommand h st))"
      by (rule adds_executeCommand [OF dispatch_adds_refl])
    show "bracket_invariant h initial"
      by (rule invariant_initial)
    show "bracket_invariant h (run h actions st)" if "bracket_invariant h st"
      using that by (rule invariant_run)
  qed (use c [OF _ refl] r in blast)+
qed

theorem execution_bracket_witness:
  "run example_host
     [Typed ''document.title'', KeyDown ''Enter'',
      Completes 0 (JObject [(''success'', JBool True), (''result'', JNull)]) JUndefined]
     initial =
   initial\<lparr> commandHistory := [''document.title''],
            output_lines := [(''researcher@browser:~$ document.title'', ''command-line''),
                             (''null'', ''success'')],
            trace := [Output ''researcher@browser:~$ document.title'' ''command-line'',
                      Sent EXECUTION_START,
                      Evaluated (wrappedCode ''document.title''),
                      Scrolled,
                      Sent EXECUTION_END,
                      Output ''null'' ''success''] \<rparr>
   \<and> bracket_invariant example_host (run example_host
        [Typed ''document.title'', KeyDown ''Enter'',
         Completes 0 (JObject [(''success'', JBool True), (''result'', JNull)]) JUndefined]
        initial)
   \<and> pending (run example_host [Typed ''document.title'', KeyDown ''Enter''] initial)
       = [(wrappedCode ''document.title'', Some SnippetResult)]"
proof -
  let ?st = "run example_host [Typed ''document.title'', KeyDown ''Enter''] initial"
  have p: "parseCommand example_host ''document.title'' s =
     (None, s\<lparr> trace := trace s @
                  [Sent EXECUTION_START, Evaluated (wrappedCode ''document.title'')],
                snippetStatus := False,
                pending := pending s @ [(wrappedCode ''document.title'', Some SnippetResult)] \<rparr>)"
    for s
    by (simp add: parseCommand_def is_space_def toLowerCase_def lower_char_def
        parseCommand_switch_def handleSnippetExecution_def executeInPage_def sendMessage_def
        inspectedWindow_eval_def and_then_def finally_do_def catch_with_def
        setStatusIndicator_def Let_def example_host_def)
  have st: "?st = initial\<lparr> commandHistory := [''document.title''],
            output_lines := [(''researcher@browser:~$ document.title'', ''command-line'')],
            trace := [Output ''researcher@browser:~$ document.title'' ''command-line'',
                      Sent EXECUTION_START,
                      Evaluated (wrappedCode ''document.title''),
                      Scrolled],
            pending := [(wrappedCode ''document.title'', Some SnippetResult)] \<rparr>"
    by (simp add: handleKeyDown_def executeCommand_def trim_def is_space_def p Let_def
        and_then_def ok_def appendOutput_def initial_def)
  have inv: "bracket_invariant example_host initial \<longrightarrow> bracket_invariant example_host
      (run example_host
        [Typed ''document.title'', KeyDown ''Enter'',
         Completes 0 (JObject [(''success'', JBool True), (''result'', JNull)]) JUndefined]
        initial)"
    and i0: "bracket_invariant example_host initial"
    using execution_bracket [where h = example_host and st = initial
        and actions = "[Typed ''document.title'', KeyDown ''Enter'',
         Completes 0 (JObject [(''success'', JBool True), (''result'', JNull)]) JUndefined]"]
    by blast+
  have e: "sendMessage_raises example_host EXECUTION_END = None"
    by (simp add: example_host_def)
  have fin: "transport_completes example_host 0
        (JObject [(''success'', JBool True), (''result'', JNull)]) JUndefined ?st =
      run_callback example_host SnippetResult
        (JObject [(''success'', JBool True), (''result'', JNull)]) JUndefined
        (?st\<lparr> pending := take 0 (pending ?st) @ drop (Suc 0) (pending ?st),
              trace := trace ?st @ [Sent EXECUTION_END] \<rparr>)"
    using execution_bracket [where h = example_host and st = ?st and i = 0
        and cb = SnippetResult
        and result = "JObject [(''success'', JBool True), (''result'', JNull)]"
        and isException = JUndefined] e
    unfolding st by simp
  have "run example_host
     [Typed ''document.title'', KeyDown ''Enter'',
      Completes 0 (JObject [(''success'', JBool True), (''result'', JNull)]) JUndefined]
     initial = snd (transport_completes example_host 0
        (JObject [(''success'', JBool True), (''result'', JNull)]) JUndefined ?st)"
    by simp
  also have "\<dots> = initial\<lparr> commandHistory := [''document.title''],
            output_lines := [(''researcher@browser:~$ document.title'', ''command-line''),
                             (''null'', ''success'')],
            trace := [Output ''researcher@browser:~$ document.title'' ''command-line'',
                      Sent EXECUTION_START,
                      Evaluated (wrappedCode ''document.title''),
                      Scrolled,
                      Sent EXECUTION_END,
                      Output ''null'' ''success''] \<rparr>"
    unfolding fin unfolding st
    by (simp add: initial_def example_host_def handleSnippetExecution_callback_def ok_def
        appendOutput_def)
  finally show ?thesis using inv i0 st by simp
qed

subsection \<open>Target URL validation\<close>




end
